theory Spec2Isabelle
  imports Main
begin

section \<open>The newsletter digest script (digest.py)\<close>

text \<open>
  The script reads the unread messages of a Gmail mailbox, asks Gemini for one summary of
  them, sends the summary through AWS SES and only then marks the messages read. Every
  function of \<^verbatim>\<open>digest.py\<close> is a HOL function of the same name. What the script
  gets from outside (the process environment, the clock, the Gmail, Gemini and SES clients and
  the decoders of the standard library) is a field of the record \<open>env\<close>: a function from the
  request to either the exception it raises or the value it returns. A function of the script
  returns its result together with the events it produced, in the order in which they happened.
\<close>

subsection \<open>Exceptions\<close>

text \<open>
  The handlers of the script tell \<^verbatim>\<open>HttpError\<close> from every other exception, and the
  script itself raises \<^verbatim>\<open>ValueError\<close>. Each constructor carries \<^verbatim>\<open>str(e)\<close>;
  \<open>OtherException\<close> also carries the name of the class. All three are subclasses of
  \<^verbatim>\<open>Exception\<close>; \<^verbatim>\<open>SystemExit\<close>, which \<^verbatim>\<open>except Exception\<close> does not catch,
  is a way for \<open>main\<close> to end (type \<open>exit\<close> below).
\<close>

datatype exn = HttpError string | ValueError string | OtherException string string

fun exn_str :: "exn \<Rightarrow> string" where
  "exn_str (HttpError s) = s"
| "exn_str (ValueError s) = s"
| "exn_str (OtherException c s) = s"

subsection \<open>Gmail messages and email records\<close>

text \<open>
  A message of the Gmail API, as far as the script reads it. A field is optional exactly
  where the script tests for the key (\<^verbatim>\<open>"parts" in payload\<close>, \<^verbatim>\<open>"body" in payload\<close>,
  \<^verbatim>\<open>"data" in part["body"]\<close>). The script never reads the MIME type of the payload
  itself; the field is there to say what kind of message an example is.
\<close>

record part_body =
  body_data :: "string option"

record part =
  part_mimeType :: string
  part_body :: part_body

record payload =
  payload_mimeType :: string
  payload_headers :: "(string \<times> string) list"
  payload_parts :: "part list option"
  payload_body :: "part_body option"

record message =
  message_payload :: payload

text \<open>The dictionary that \<^verbatim>\<open>get_unread_emails\<close> builds for each message.\<close>

record email =
  email_id :: string
  email_subject :: string
  email_sender :: string
  email_date :: string
  email_body :: string

text \<open>
  The multipart message that \<^verbatim>\<open>send_summary_email\<close> composes: its three headers and
  the parts attached to it, each one a value that \<^verbatim>\<open>MIMEText\<close> returned.
\<close>

record mime_part =
  mime_payload :: string
  mime_subtype :: string

record mime_message =
  mime_subject :: string
  mime_from :: string
  mime_to :: string
  mime_parts :: "mime_part list"

subsection \<open>The outside world\<close>

record gmail_service =
  messages_list :: "string \<Rightarrow> nat \<Rightarrow> exn + string list option"
  messages_get :: "string \<Rightarrow> exn + message"
  messages_batchModify :: "string list \<Rightarrow> string list \<Rightarrow> exn + unit"

record ses_client =
  send_raw_email :: "string \<Rightarrow> string list \<Rightarrow> string \<Rightarrow> exn + string"

text \<open>
  \<^item> \<open>messages_list q n\<close> is \<^verbatim>\<open>messages().list(userId="me", q=q, maxResults=n).execute()\<close>:
    the value under the key \<^verbatim>\<open>"messages"\<close> (the message ids), \<open>None\<close> when the key is absent.
  \<^item> \<open>messages_get i\<close> is \<^verbatim>\<open>messages().get(userId="me", id=i, format="full").execute()\<close>.
  \<^item> \<open>messages_batchModify ids labels\<close> is \<^verbatim>\<open>messages().batchModify(...).execute()\<close> with
    \<^verbatim>\<open>removeLabelIds=labels\<close>.
  \<^item> \<open>send_raw_email src dsts raw\<close> returns the \<^verbatim>\<open>MessageId\<close> of the response.
\<close>

record env =
  environ :: "string \<Rightarrow> string option"
  now_str :: string
  today_str :: string
  credentials_of_token :: "string \<Rightarrow> exn + string"
  build_gmail :: "string \<Rightarrow> exn + gmail_service"
  b64_utf8_decode :: "string \<Rightarrow> exn + string"
  generate_content :: "string \<Rightarrow> string \<Rightarrow> string \<Rightarrow> exn + string"
  boto3_client :: "string \<Rightarrow> exn + ses_client"
  MIMEText :: "string \<Rightarrow> string \<Rightarrow> exn + mime_part"
  mime_as_string :: "mime_message \<Rightarrow> exn + string"

text \<open>
  \<^item> \<open>now_str\<close> is \<^verbatim>\<open>str(datetime.now())\<close>, \<open>today_str\<close> is
    \<^verbatim>\<open>datetime.now().strftime('%Y-%m-%d')\<close>.
  \<^item> \<open>credentials_of_token t\<close> is \<^verbatim>\<open>base64.b64decode(t).decode("utf-8")\<close>, then
    \<^verbatim>\<open>json.loads\<close>, then \<^verbatim>\<open>Credentials.from_authorized_user_info\<close>.
  \<^item> \<open>b64_utf8_decode d\<close> is \<^verbatim>\<open>base64.urlsafe_b64decode(d).decode("utf-8")\<close>.
  \<^item> \<open>generate_content key model prompt\<close> is \<^verbatim>\<open>genai.configure(api_key=key)\<close>,
    \<^verbatim>\<open>genai.GenerativeModel(model).generate_content(prompt)\<close> and the \<^verbatim>\<open>.text\<close> of the response.
  \<^item> \<open>boto3_client region\<close> is \<^verbatim>\<open>boto3.client("ses", region_name=region)\<close>.
  \<^item> \<open>MIMEText text subtype\<close> is \<^verbatim>\<open>MIMEText(text, subtype)\<close>, which raises
    \<^verbatim>\<open>UnicodeEncodeError\<close> for a text that no charset encodes (a lone surrogate).
  \<^item> \<open>mime_as_string msg\<close> is \<^verbatim>\<open>msg.as_string()\<close>.
\<close>

subsection \<open>Events\<close>

text \<open>
  What a run does, in order: the lines it prints, the requests it sends with the answer each
  one got, and, for the four operations of the pipeline, the call with its arguments and the
  result with which it came back (\<open>Inl\<close> an exception that left the function).
\<close>

datatype event =
    Print string
  | PrintExc exn
  | GmailList string nat "exn + string list option"
  | GmailGet string "exn + message"
  | GmailBatchModify "string list" "string list" "exn + unit"
  | GenerateContent string string string "exn + string"
  | SesSendRawEmail string "string list" string "exn + string"
  | FetchCall nat
  | FetchResult "exn + email list"
  | SummarizeCall "email list" string
  | SummarizeResult "exn + string"
  | SendCall string string string string
  | SendResult "exn + bool"
  | AckCall "string list"
  | AckResult "exn + unit"

subsection \<open>Strings\<close>

fun digit_char :: "nat \<Rightarrow> char" where
  "digit_char n = ''0123456789'' ! (n mod 10)"

fun str_nat :: "nat \<Rightarrow> string" where
  "str_nat n = (if n < 10 then [digit_char n] else str_nat (n div 10) @ [digit_char n])"

declare str_nat.simps [simp del]

fun join :: "string \<Rightarrow> string list \<Rightarrow> string" where
  "join sep [] = []"
| "join sep [x] = x"
| "join sep (x # y # ys) = x @ sep @ join sep (y # ys)"

subsection \<open>load_gmail_credentials\<close>

definition load_gmail_credentials :: "env \<Rightarrow> exn + string" where
  "load_gmail_credentials E =
     (case environ E ''GMAIL_TOKEN_B64'' of
        None \<Rightarrow> Inl (ValueError ''GMAIL_TOKEN_B64 environment variable not set'')
      | Some token_b64 \<Rightarrow>
          if token_b64 = [] then Inl (ValueError ''GMAIL_TOKEN_B64 environment variable not set'')
          else (case credentials_of_token E token_b64 of
                  Inl e \<Rightarrow> Inl (ValueError (''Failed to decode Gmail credentials: '' @ exn_str e))
                | Inr creds \<Rightarrow> Inr creds))"

subsection \<open>extract_body\<close>

text \<open>
  The loop over \<^verbatim>\<open>payload["parts"]\<close>: the body stays empty until a part of type
  \<^verbatim>\<open>text/plain\<close> has \<^verbatim>\<open>"data"\<close> in its body; that data is decoded and the loop
  ends (\<^verbatim>\<open>break\<close>). An exception of the decoder leaves the function.
\<close>

fun extract_body_parts :: "env \<Rightarrow> part list \<Rightarrow> exn + string" where
  "extract_body_parts E [] = Inr []"
| "extract_body_parts E (p # ps) =
     (if part_mimeType p = ''text/plain'' then
        (case body_data (part_body p) of
           Some d \<Rightarrow> b64_utf8_decode E d
         | None \<Rightarrow> extract_body_parts E ps)
      else extract_body_parts E ps)"

definition extract_body :: "env \<Rightarrow> payload \<Rightarrow> exn + string" where
  "extract_body E pl =
     (case payload_parts pl of
        Some ps \<Rightarrow> extract_body_parts E ps
      | None \<Rightarrow>
          (case payload_body pl of
             None \<Rightarrow> Inr []
           | Some b \<Rightarrow>
               (case body_data b of
                  None \<Rightarrow> Inr []
                | Some d \<Rightarrow> b64_utf8_decode E d)))"

subsection \<open>get_unread_emails\<close>

text \<open>\<^verbatim>\<open>next((h["value"] for h in headers if h["name"] == name), default)\<close>\<close>

fun header_value :: "(string \<times> string) list \<Rightarrow> string \<Rightarrow> string \<Rightarrow> string" where
  "header_value [] name dflt = dflt"
| "header_value ((n, v) # hs) name dflt = (if n = name then v else header_value hs name dflt)"

text \<open>
  The loop over the listed messages, with the records collected so far. The first exception
  (of the request or of the decoder) ends it.
\<close>

fun fetch_each :: "env \<Rightarrow> gmail_service \<Rightarrow> string list \<Rightarrow> email list \<Rightarrow> (exn + email list) \<times> event list" where
  "fetch_each E service [] email_data = (Inr email_data, [])"
| "fetch_each E service (msg_id # msgs) email_data =
     (case messages_get service msg_id of
        Inl e \<Rightarrow> (Inl e, [GmailGet msg_id (Inl e)])
      | Inr msg \<Rightarrow>
          (let headers = payload_headers (message_payload msg);
               subject = header_value headers ''Subject'' ''No Subject'';
               sender = header_value headers ''From'' ''Unknown'';
               date = header_value headers ''Date'' ''Unknown''
           in case extract_body E (message_payload msg) of
                Inl e \<Rightarrow> (Inl e, [GmailGet msg_id (Inr msg)])
              | Inr body \<Rightarrow>
                  (let r = fetch_each E service msgs
                             (email_data @ [\<lparr>email_id = msg_id, email_subject = subject,
                                email_sender = sender, email_date = date,
                                email_body = take 1000 body\<rparr>])
                   in (fst r, GmailGet msg_id (Inr msg) # snd r))))"

text \<open>The handler \<^verbatim>\<open>except HttpError\<close>: print and return the empty list; anything else goes on.\<close>

fun fetch_handler :: "exn \<Rightarrow> event list \<Rightarrow> (exn + email list) \<times> event list" where
  "fetch_handler (HttpError s) evs = (Inr [], evs @ [Print (''An error occurred: '' @ s)])"
| "fetch_handler e evs = (Inl e, evs)"

definition get_unread_emails :: "env \<Rightarrow> gmail_service \<Rightarrow> nat \<Rightarrow> (exn + email list) \<times> event list" where
  "get_unread_emails E service max_results =
     (let results = messages_list service ''is:unread'' max_results;
          listed = [GmailList ''is:unread'' max_results results]
      in case results of
           Inl e \<Rightarrow> fetch_handler e listed
         | Inr found \<Rightarrow>
             (let messages = (case found of None \<Rightarrow> [] | Some ms \<Rightarrow> ms)
              in if messages = [] then (Inr [], listed @ [Print ''No unread messages found.''])
                 else (case fetch_each E service messages [] of
                         (Inl e, evs) \<Rightarrow> fetch_handler e (listed @ evs)
                       | (Inr email_data, evs) \<Rightarrow> (Inr email_data, listed @ evs))))"

subsection \<open>summarize_emails_with_gemini\<close>

definition email_entry :: "nat \<times> email \<Rightarrow> string" where
  "email_entry ie =
     ''Email '' @ str_nat (fst ie + 1) @ '':\<newline>From: '' @ email_sender (snd ie) @
     ''\<newline>Subject: '' @ email_subject (snd ie) @ ''\<newline>Date: '' @ email_date (snd ie) @
     ''\<newline>Preview: '' @ take 500 (email_body (snd ie)) @ ''...''"

definition build_prompt :: "email list \<Rightarrow> string" where
  "build_prompt emails =
     ''You are a helpful assistant that summarizes newsletter emails.\<newline>Below are '' @
     str_nat (length emails) @
     '' emails from the last 24 hours. Please provide a concise summary of the key information,\<newline>'' @
     ''organized by topic or theme. Focus on actionable insights and important updates.\<newline>\<newline>'' @
     join ''\<newline>\<newline>'' (map email_entry (enumerate 0 emails)) @
     ''\<newline>\<newline>Please provide a well-organized summary with clear sections and bullet points.''"

definition summarize_emails_with_gemini :: "env \<Rightarrow> email list \<Rightarrow> string \<Rightarrow> (exn + string) \<times> event list" where
  "summarize_emails_with_gemini E emails api_key =
     (if emails = [] then (Inl (ValueError ''No emails to summarize''), [])
      else (let prompt = build_prompt emails;
                response = generate_content E api_key ''gemini-2.5-flash'' prompt
            in (response, [GenerateContent api_key ''gemini-2.5-flash'' prompt response])))"

subsection \<open>mark_emails_as_read\<close>

text \<open>
  Nothing is requested for an empty list. The handler is \<^verbatim>\<open>except HttpError\<close>: that
  exception is printed and the function returns; any other exception leaves the function.
\<close>

definition mark_emails_as_read :: "gmail_service \<Rightarrow> string list \<Rightarrow> (exn + unit) \<times> event list" where
  "mark_emails_as_read service email_ids =
     (if email_ids = [] then (Inr (), [])
      else (let response = messages_batchModify service email_ids [''UNREAD''];
                requested = [GmailBatchModify email_ids [''UNREAD''] response]
            in case response of
                 Inr u \<Rightarrow>
                   (Inr (), requested @
                      [Print (''Marked '' @ str_nat (length email_ids) @ '' emails as read.'')])
               | Inl (HttpError s) \<Rightarrow>
                   (Inr (), requested @ [Print (''Error marking emails as read: '' @ s)])
               | Inl e \<Rightarrow> (Inl e, requested)))"

subsection \<open>send_summary_email\<close>

definition digest_subject :: "env \<Rightarrow> string" where
  "digest_subject E = ''Daily Newsletter Digest - '' @ today_str E"

definition html_body :: "string \<Rightarrow> string \<Rightarrow> string" where
  \<open>html_body subject summary =
     ''\<newline>    <html>\<newline>      <head></head>\<newline>      <body>\<newline>        <h2>'' @ subject @
     ''</h2>\<newline>        <div style="white-space: pre-wrap; font-family: Arial, sans-serif;">\<newline>'' @
     summary @
     ''\<newline>        </div>\<newline>        <hr>\<newline>        <p style="color: #666; font-size: 12px;">\<newline>'' @
     ''          This is an automated digest from your newsletter subscriptions.\<newline>'' @
     ''        </p>\<newline>      </body>\<newline>    </html>\<newline>    ''\<close>

definition text_body :: "string \<Rightarrow> string \<Rightarrow> string" where
  "text_body subject summary =
     subject @ ''\<newline>\<newline>'' @ summary @
     ''\<newline>\<newline>---\<newline>This is an automated digest from your newsletter subscriptions.''"

text \<open>
  The client and the message are made before the \<^verbatim>\<open>try\<close>: an exception of
  \<^verbatim>\<open>boto3.client\<close>, of \<^verbatim>\<open>MIMEText(text_body, "plain")\<close> or of
  \<^verbatim>\<open>MIMEText(html_body, "html")\<close>, in this order, leaves the function
  (\<^verbatim>\<open>MIMEMultipart\<close>, the assignments of the headers and \<^verbatim>\<open>attach\<close> only store
  what they are given). Inside the
  \<^verbatim>\<open>try\<close> are \<^verbatim>\<open>msg.as_string()\<close> and the request; the handler is
  \<^verbatim>\<open>except Exception\<close>, which prints and returns \<^verbatim>\<open>False\<close>.
\<close>

definition send_summary_email :: "env \<Rightarrow> string \<Rightarrow> string \<Rightarrow> string \<Rightarrow> string \<Rightarrow> (exn + bool) \<times> event list" where
  "send_summary_email E summary source_email destination_email aws_region =
     (case boto3_client E aws_region of
        Inl e \<Rightarrow> (Inl e, [])
      | Inr client \<Rightarrow>
          (let subject = digest_subject E
           in case MIMEText E (text_body subject summary) ''plain'' of
                Inl e \<Rightarrow> (Inl e, [])
              | Inr text_part \<Rightarrow>
          (case MIMEText E (html_body subject summary) ''html'' of
                Inl e \<Rightarrow> (Inl e, [])
              | Inr html_part \<Rightarrow>
          (let msg = \<lparr>mime_subject = subject, mime_from = source_email,
                      mime_to = destination_email, mime_parts = [text_part, html_part]\<rparr>
           in case mime_as_string E msg of
                Inl e \<Rightarrow> (Inr False, [Print (''Error sending email: '' @ exn_str e)])
              | Inr raw \<Rightarrow>
                  (let response = send_raw_email client source_email [destination_email] raw;
                       requested = [SesSendRawEmail source_email [destination_email] raw response]
                   in case response of
                        Inr message_id \<Rightarrow>
                          (Inr True, requested @ [Print (''Email sent! Message ID: '' @ message_id)])
                      | Inl e \<Rightarrow>
                          (Inr False,
                           requested @ [Print (''Error sending email: '' @ exn_str e)]))))))"

subsection \<open>main\<close>

text \<open>
  How \<^verbatim>\<open>main\<close> ends: it returns, it calls \<^verbatim>\<open>sys.exit(n)\<close>, or an exception
  leaves it. The exit status of the process is 0 in the first case, \<open>n\<close> in the second and 1
  in the third.
\<close>

datatype exit = Return | SysExit nat | Uncaught exn

fun exit_status :: "exit \<Rightarrow> nat" where
  "exit_status Return = 0"
| "exit_status (SysExit n) = n"
| "exit_status (Uncaught e) = 1"

definition required_vars :: "string list" where
  "required_vars = [''GEMINI_API_KEY'', ''GMAIL_TOKEN_B64'', ''AWS_ACCESS_KEY_ID'',
     ''AWS_SECRET_ACCESS_KEY'', ''SOURCE_EMAIL'', ''DESTINATION_EMAIL'']"

text \<open>\<^verbatim>\<open>not os.environ.get(var)\<close>: the variable is unset or empty.\<close>

definition not_set :: "env \<Rightarrow> string \<Rightarrow> bool" where
  "not_set E var = (case environ E var of None \<Rightarrow> True | Some v \<Rightarrow> v = [])"

text \<open>\<^verbatim>\<open>os.environ[var]\<close>\<close>

definition environ_item :: "env \<Rightarrow> string \<Rightarrow> exn + string" where
  "environ_item E var =
     (case environ E var of None \<Rightarrow> Inl (OtherException ''KeyError'' var) | Some v \<Rightarrow> Inr v)"

text \<open>\<^verbatim>\<open>os.environ.get(var, default)\<close>\<close>

definition environ_get :: "env \<Rightarrow> string \<Rightarrow> string \<Rightarrow> string" where
  "environ_get E var dflt = (case environ E var of None \<Rightarrow> dflt | Some v \<Rightarrow> v)"

text \<open>
  The body of the \<^verbatim>\<open>try\<close> statement of \<^verbatim>\<open>main\<close>. \<open>Inl e\<close> is an exception on its
  way to the handler \<^verbatim>\<open>except Exception\<close> of \<^verbatim>\<open>main\<close>; \<open>Inr x\<close> ends \<^verbatim>\<open>main\<close>
  (\<^verbatim>\<open>sys.exit\<close> raises \<^verbatim>\<open>SystemExit\<close>, which that handler does not catch). Around the
  events of each of the four operations stand the event of its call and the event of its result.
\<close>

definition main_try :: "env \<Rightarrow> string \<Rightarrow> string \<Rightarrow> string \<Rightarrow> string \<Rightarrow> (exn + exit) \<times> event list" where
  "main_try E gemini_api_key source_email destination_email aws_region =
     (let t1 = [Print ''Connecting to Gmail...'']
      in case load_gmail_credentials E of
           Inl e \<Rightarrow> (Inl e, t1)
         | Inr creds \<Rightarrow>
      (case build_gmail E creds of
           Inl e \<Rightarrow> (Inl e, t1)
         | Inr gmail_service \<Rightarrow>
      (let fetched = get_unread_emails E gmail_service 50;
           t2 = t1 @ [Print ''Fetching unread emails...'', FetchCall 50] @ snd fetched @
                [FetchResult (fst fetched)]
       in case fst fetched of
            Inl e \<Rightarrow> (Inl e, t2)
          | Inr emails \<Rightarrow>
      if emails = [] then
        (Inr Return,
         t2 @ [Print ''No unread emails found. Nothing to do. Exiting successfully.''])
      else
      (let summarized = summarize_emails_with_gemini E emails gemini_api_key;
           t3 = t2 @ [Print (''Found '' @ str_nat (length emails) @ '' unread emails.''),
                      Print ''Generating summary with Gemini AI...'',
                      SummarizeCall emails gemini_api_key] @ snd summarized @
                [SummarizeResult (fst summarized)]
       in case fst summarized of
            Inl e \<Rightarrow>
              (Inr (SysExit 1),
               t3 @ [Print (''Failed to generate summary: '' @ exn_str e),
                     Print ''Aborting. Emails will remain unread.''])
          | Inr summary \<Rightarrow>
      (let sent = send_summary_email E summary source_email destination_email aws_region;
           t4 = t3 @ [Print ''Summary generated successfully.'',
                      Print ''Sending digest email...'',
                      SendCall summary source_email destination_email aws_region] @ snd sent @
                [SendResult (fst sent)]
       in case fst sent of
            Inl e \<Rightarrow> (Inl e, t4)
          | Inr success \<Rightarrow>
      if \<not> success then
        (Inr (SysExit 1),
         t4 @ [Print ''Failed to send digest email. Aborting. Emails will remain unread.''])
      else
      (let email_ids = map email_id emails;
           acked = mark_emails_as_read gmail_service email_ids;
           t5 = t4 @ [Print ''Marking emails as read...'', AckCall email_ids] @ snd acked @
                [AckResult (fst acked)]
       in case fst acked of
            Inl e \<Rightarrow> (Inl e, t5)
          | Inr u \<Rightarrow> (Inr Return, t5 @ [Print ''Digest completed successfully!''])))))))"

definition main :: "env \<Rightarrow> exit \<times> event list" where
  "main E =
     (let t0 = [Print (''Starting newsletter digest at '' @ now_str E)];
          missing_vars = filter (not_set E) required_vars
      in if missing_vars \<noteq> [] then
           (SysExit 1,
            t0 @ [Print (''Error: Missing required environment variables: '' @
                         join '', '' missing_vars)])
         else
           (case environ_item E ''GEMINI_API_KEY'' of
              Inl e \<Rightarrow> (Uncaught e, t0)
            | Inr gemini_api_key \<Rightarrow>
           (case environ_item E ''SOURCE_EMAIL'' of
              Inl e \<Rightarrow> (Uncaught e, t0)
            | Inr source_email \<Rightarrow>
           (case environ_item E ''DESTINATION_EMAIL'' of
              Inl e \<Rightarrow> (Uncaught e, t0)
            | Inr destination_email \<Rightarrow>
           (let aws_region = environ_get E ''AWS_REGION'' ''us-east-1''
            in case main_try E gemini_api_key source_email destination_email aws_region of
                 (Inr x, t) \<Rightarrow> (x, t0 @ t)
               | (Inl e, t) \<Rightarrow>
                   (SysExit 1,
                    t0 @ t @ [Print (''Error during execution: '' @ exn_str e), PrintExc e]))))))"

section \<open>Observing a run\<close>

subsection \<open>Kinds of events\<close>

text \<open>
  An acknowledge event is a call of \<^verbatim>\<open>mark_emails_as_read\<close> or a
  \<^verbatim>\<open>batchModify\<close> request; a send event is a call of \<^verbatim>\<open>send_summary_email\<close>
  or a \<^verbatim>\<open>send_raw_email\<close> request; a summarize event is a call of
  \<^verbatim>\<open>summarize_emails_with_gemini\<close> or a \<^verbatim>\<open>generate_content\<close> request.
\<close>

fun ack_event :: "event \<Rightarrow> bool" where
  "ack_event (AckCall ids) = True"
| "ack_event (GmailBatchModify ids labels r) = True"
| "ack_event ev = False"

fun send_event :: "event \<Rightarrow> bool" where
  "send_event (SendCall summary src dst region) = True"
| "send_event (SesSendRawEmail src dsts raw r) = True"
| "send_event ev = False"

fun summarize_event :: "event \<Rightarrow> bool" where
  "summarize_event (SummarizeCall emails k) = True"
| "summarize_event (GenerateContent k m p r) = True"
| "summarize_event ev = False"

text \<open>The stage of the pipeline an event belongs to; printing belongs to none.\<close>

fun stage :: "event \<Rightarrow> nat" where
  "stage (Print s) = 0"
| "stage (PrintExc e) = 0"
| "stage (GmailList q n r) = 1"
| "stage (GmailGet i r) = 1"
| "stage (FetchCall n) = 1"
| "stage (FetchResult r) = 1"
| "stage (SummarizeCall emails k) = 2"
| "stage (GenerateContent k m p r) = 2"
| "stage (SummarizeResult r) = 2"
| "stage (SendCall summary src dst region) = 3"
| "stage (SesSendRawEmail src dsts raw r) = 3"
| "stage (SendResult r) = 3"
| "stage (AckCall ids) = 4"
| "stage (GmailBatchModify ids labels r) = 4"
| "stage (AckResult r) = 4"

text \<open>The calls and results of the four operations, as opposed to requests and printing.\<close>

fun boundary :: "event \<Rightarrow> bool" where
  "boundary (FetchCall n) = True"
| "boundary (FetchResult r) = True"
| "boundary (SummarizeCall emails k) = True"
| "boundary (SummarizeResult r) = True"
| "boundary (SendCall summary src dst region) = True"
| "boundary (SendResult r) = True"
| "boundary (AckCall ids) = True"
| "boundary (AckResult r) = True"
| "boundary ev = False"

text \<open>
  \<open>guarded sent evs\<close>: walking through \<open>evs\<close>, no acknowledge event comes before the
  event \<open>SendResult (Inr True)\<close> (\<^verbatim>\<open>send_summary_email\<close> was called and returned
  \<^verbatim>\<open>True\<close>), unless \<open>sent\<close> says it has happened already.
\<close>

fun guarded :: "bool \<Rightarrow> event list \<Rightarrow> bool" where
  "guarded sent [] = True"
| "guarded sent (ev # evs) =
     ((ack_event ev \<longrightarrow> sent) \<and> guarded (sent \<or> ev = SendResult (Inr True)) evs)"

text \<open>
  The unread messages of the mailbox after the requests of a run: the only request of the
  script that changes the mailbox is \<^verbatim>\<open>batchModify\<close>, which, when it succeeds with
  \<^verbatim>\<open>UNREAD\<close> among the labels to remove, clears the flag on the given ids.
\<close>

fun unread_after :: "event list \<Rightarrow> string set \<Rightarrow> string set" where
  "unread_after [] u = u"
| "unread_after (GmailBatchModify ids labels (Inr x) # evs) u =
     unread_after evs (if ''UNREAD'' \<in> set labels then u - set ids else u)"
| "unread_after (ev # evs) u = unread_after evs u"

subsection \<open>The segments of a run\<close>

text \<open>
  What \<^verbatim>\<open>main\<close> prints and does from its start to the end of the fetch, around the
  summary, around the send and around the acknowledgement, and what its last handler prints.
\<close>

definition fetch_segment :: "env \<Rightarrow> gmail_service \<Rightarrow> event list" where
  "fetch_segment E sv =
     [Print (''Starting newsletter digest at '' @ now_str E), Print ''Connecting to Gmail...'',
      Print ''Fetching unread emails...'', FetchCall 50] @
     snd (get_unread_emails E sv 50) @ [FetchResult (fst (get_unread_emails E sv 50))]"

definition summarize_segment :: "env \<Rightarrow> email list \<Rightarrow> string \<Rightarrow> event list" where
  "summarize_segment E emails k =
     [Print (''Found '' @ str_nat (length emails) @ '' unread emails.''),
      Print ''Generating summary with Gemini AI...'', SummarizeCall emails k] @
     snd (summarize_emails_with_gemini E emails k) @
     [SummarizeResult (fst (summarize_emails_with_gemini E emails k))]"

definition send_segment :: "env \<Rightarrow> string \<Rightarrow> string \<Rightarrow> string \<Rightarrow> string \<Rightarrow> event list" where
  "send_segment E summary s d r =
     [Print ''Summary generated successfully.'', Print ''Sending digest email...'',
      SendCall summary s d r] @
     snd (send_summary_email E summary s d r) @
     [SendResult (fst (send_summary_email E summary s d r))]"

definition ack_segment :: "gmail_service \<Rightarrow> email list \<Rightarrow> event list" where
  "ack_segment sv emails =
     [Print ''Marking emails as read...'', AckCall (map email_id emails)] @
     snd (mark_emails_as_read sv (map email_id emails)) @
     [AckResult (fst (mark_emails_as_read sv (map email_id emails)))]"

definition failure_report :: "exn \<Rightarrow> event list" where
  "failure_report e = [Print (''Error during execution: '' @ exn_str e), PrintExc e]"

subsection \<open>Example environments\<close>

text \<open>
  A mailbox with two unread messages: \<open>m1\<close> is a single plain-text part, \<open>m2\<close> is
  multipart with an html part before the plain-text part and has no \<^verbatim>\<open>Date\<close> header.
  Gemini answers \<open>Topic A: ...\<close>, SES answers with the message id \<open>abc123\<close>.
\<close>

text \<open>
  The decoder on the data strings of the examples: the base64url strings of \<open>Hello\<close>,
  \<open>World\<close>, \<open><p>Hi</p>\<close> and \<open><p>World</p>\<close>, and \<open>_w==\<close>, the byte
  \<open>0xFF\<close>, which is not UTF-8. No example decodes any other string.
\<close>

definition demo_decode :: "string \<Rightarrow> exn + string" where
  "demo_decode d =
     (if d = ''SGVsbG8='' then Inr ''Hello''
      else if d = ''V29ybGQ='' then Inr ''World''
      else if d = ''PHA-SGk8L3A-'' then Inr ''<p>Hi</p>''
      else if d = ''PHA-V29ybGQ8L3A-'' then Inr ''<p>World</p>''
      else if d = ''_w=='' then Inl (OtherException ''UnicodeDecodeError'' ''invalid start byte'')
      else Inr [])"

definition demo_message1 :: message where
  "demo_message1 =
     \<lparr>message_payload =
        \<lparr>payload_mimeType = ''text/plain'',
         payload_headers = [(''From'', ''news@example.com''), (''Subject'', ''Weekly''),
                            (''Date'', ''Thu, 1 Jan 2026 07:00:00 +0000'')],
         payload_parts = None,
         payload_body = Some \<lparr>body_data = Some ''SGVsbG8=''\<rparr>\<rparr>\<rparr>"

definition demo_message2 :: message where
  "demo_message2 =
     \<lparr>message_payload =
        \<lparr>payload_mimeType = ''multipart/alternative'',
         payload_headers = [(''Subject'', ''Monthly''), (''From'', ''letter@example.org'')],
         payload_parts = Some
           [\<lparr>part_mimeType = ''text/html'', part_body = \<lparr>body_data = Some ''PHA-V29ybGQ8L3A-''\<rparr>\<rparr>,
            \<lparr>part_mimeType = ''text/plain'', part_body = \<lparr>body_data = Some ''V29ybGQ=''\<rparr>\<rparr>],
         payload_body = Some \<lparr>body_data = None\<rparr>\<rparr>\<rparr>"

definition demo_service :: gmail_service where
  "demo_service =
     \<lparr>messages_list = (\<lambda>q n. Inr (Some [''m1'', ''m2''])),
      messages_get = (\<lambda>i. if i = ''m1'' then Inr demo_message1 else Inr demo_message2),
      messages_batchModify = (\<lambda>ids labels. Inr ())\<rparr>"

definition demo_client :: ses_client where
  "demo_client = \<lparr>send_raw_email = (\<lambda>src dsts raw. Inr ''abc123'')\<rparr>"

definition demo_environ :: "string \<Rightarrow> string option" where
  "demo_environ = map_of
     [(''GEMINI_API_KEY'', ''gemini-key''), (''GMAIL_TOKEN_B64'', ''dG9rZW4=''),
      (''AWS_ACCESS_KEY_ID'', ''AKIAEXAMPLE''), (''AWS_SECRET_ACCESS_KEY'', ''secret''),
      (''SOURCE_EMAIL'', ''digest@example.com''), (''DESTINATION_EMAIL'', ''me@example.com'')]"

text \<open>
  An environment with all required variables set and valid credentials, in which the Gmail
  service is \<open>sv\<close>, Gemini answers every request with \<open>gemini\<close> and SES answers every
  request with \<open>ses\<close>.
\<close>

definition example_env :: "gmail_service \<Rightarrow> exn + string \<Rightarrow> exn + string \<Rightarrow> env" where
  "example_env sv gemini ses =
     \<lparr>environ = demo_environ,
      now_str = ''2026-01-01 08:00:00.000000'',
      today_str = ''2026-01-01'',
      credentials_of_token = (\<lambda>t. Inr ''credentials''),
      build_gmail = (\<lambda>c. Inr sv),
      b64_utf8_decode = demo_decode,
      generate_content = (\<lambda>k m p. gemini),
      boto3_client = (\<lambda>r. Inr \<lparr>send_raw_email = (\<lambda>src dsts raw. ses)\<rparr>),
      MIMEText = (\<lambda>text subtype. Inr \<lparr>mime_payload = text, mime_subtype = subtype\<rparr>),
      mime_as_string = (\<lambda>m. Inr ''MIME-Version: 1.0'')\<rparr>"

definition demo_env :: env where
  "demo_env = example_env demo_service (Inr ''Topic A: ...'') (Inr ''abc123'')"

definition demo_emails :: "email list" where
  "demo_emails =
     [\<lparr>email_id = ''m1'', email_subject = ''Weekly'', email_sender = ''news@example.com'',
       email_date = ''Thu, 1 Jan 2026 07:00:00 +0000'', email_body = ''Hello''\<rparr>,
      \<lparr>email_id = ''m2'', email_subject = ''Monthly'', email_sender = ''letter@example.org'',
       email_date = ''Unknown'', email_body = ''World''\<rparr>]"

text \<open>The listing request is answered with an HTTP error.\<close>

definition list_fails_service :: gmail_service where
  "list_fails_service =
     demo_service\<lparr>messages_list := (\<lambda>q n. Inl (HttpError ''HttpError 500''))\<rparr>"

definition list_fails_env :: env where
  "list_fails_env = example_env list_fails_service (Inr ''Topic A: ...'') (Inr ''abc123'')"

text \<open>The second message cannot be fetched: the request raises the given exception.\<close>

definition get_fails_service :: "exn \<Rightarrow> gmail_service" where
  "get_fails_service e =
     demo_service\<lparr>messages_get := (\<lambda>i. if i = ''m1'' then Inr demo_message1 else Inl e)\<rparr>"

definition get_fails_env :: "exn \<Rightarrow> env" where
  "get_fails_env e = example_env (get_fails_service e) (Inr ''Topic A: ...'') (Inr ''abc123'')"

text \<open>No unread message: the listing has no key \<^verbatim>\<open>"messages"\<close>.\<close>

definition empty_service :: gmail_service where
  "empty_service = demo_service\<lparr>messages_list := (\<lambda>q n. Inr None)\<rparr>"

definition empty_env :: env where
  "empty_env = example_env empty_service (Inr ''Topic A: ...'') (Inr ''abc123'')"

text \<open>The \<^verbatim>\<open>batchModify\<close> request raises the given exception.\<close>

definition ack_fails_service :: "exn \<Rightarrow> gmail_service" where
  "ack_fails_service e = demo_service\<lparr>messages_batchModify := (\<lambda>ids labels. Inl e)\<rparr>"

definition ack_fails_env :: "exn \<Rightarrow> env" where
  "ack_fails_env e = example_env (ack_fails_service e) (Inr ''Topic A: ...'') (Inr ''abc123'')"

text \<open>Gemini is out of quota.\<close>

definition quota_error :: exn where
  "quota_error = OtherException ''ResourceExhausted'' ''429 quota exceeded''"

definition summarize_fails_env :: env where
  "summarize_fails_env = example_env demo_service (Inl quota_error) (Inr ''abc123'')"

text \<open>SES rejects the message.\<close>

definition rejected_error :: exn where
  "rejected_error = OtherException ''ClientError'' ''MessageRejected''"

definition send_fails_env :: env where
  "send_fails_env = example_env demo_service (Inr ''Topic A: ...'') (Inl rejected_error)"

text \<open>The connection times out.\<close>

definition timeout_error :: exn where
  "timeout_error = OtherException ''TimeoutError'' ''timed out''"

text \<open>
  \<^verbatim>\<open>AWS_REGION\<close> is set to a string that is no region name, and \<^verbatim>\<open>boto3.client\<close>
  raises for it.
\<close>

definition region_error :: exn where
  "region_error = OtherException ''InvalidRegionError'' ''us east 1''"

definition bad_region_env :: env where
  "bad_region_env =
     demo_env\<lparr>environ := demo_environ(''AWS_REGION'' \<mapsto> ''us east 1''),
               boto3_client := (\<lambda>r. if r = ''us east 1'' then Inl region_error
                                     else Inr demo_client)\<rparr>"

text \<open>Payloads for the body extraction.\<close>

definition undecodable_payload :: payload where
  "undecodable_payload =
     \<lparr>payload_mimeType = ''text/plain'', payload_headers = [], payload_parts = None,
      payload_body = Some \<lparr>body_data = Some ''_w==''\<rparr>\<rparr>"

definition html_only_payload :: payload where
  "html_only_payload =
     \<lparr>payload_mimeType = ''text/html'', payload_headers = [], payload_parts = None,
      payload_body = Some \<lparr>body_data = Some ''PHA-SGk8L3A-''\<rparr>\<rparr>"

definition attachment_payload :: payload where
  "attachment_payload =
     \<lparr>payload_mimeType = ''multipart/mixed'', payload_headers = [],
      payload_parts = Some
        [\<lparr>part_mimeType = ''text/html'', part_body = \<lparr>body_data = Some ''PHA-SGk8L3A-''\<rparr>\<rparr>,
         \<lparr>part_mimeType = ''text/plain'', part_body = \<lparr>body_data = None\<rparr>\<rparr>],
      payload_body = None\<rparr>"

text \<open>The part that the loop of \<^verbatim>\<open>extract_body\<close> stops at.\<close>

definition plain_with_data :: "part \<Rightarrow> bool" where
  "plain_with_data p = (part_mimeType p = ''text/plain'' \<and> body_data (part_body p) \<noteq> None)"

section \<open>Properties\<close>

subsection \<open>Events of the operations\<close>

lemma ack_event_stage: "ack_event ev \<Longrightarrow> stage ev = 4"
  by (cases ev) simp_all

lemma send_event_stage: "send_event ev \<Longrightarrow> stage ev = 3"
  by (cases ev) simp_all

lemma summarize_event_stage: "summarize_event ev \<Longrightarrow> stage ev = 2"
  by (cases ev) simp_all

lemma fetch_handler_fst:
  "fst (fetch_handler e evs) = (case e of HttpError s \<Rightarrow> Inr [] | _ \<Rightarrow> Inl e)"
  by (cases e) simp_all

lemma fetch_handler_events:
  "ev \<in> set (snd (fetch_handler e evs)) \<Longrightarrow> ev \<in> set evs \<or> (\<exists>s. ev = Print s)"
  by (cases e) auto

lemma fetch_handler_requests:
  "stage ev \<noteq> 0 \<Longrightarrow> ev \<in> set (snd (fetch_handler e evs)) \<longleftrightarrow> ev \<in> set evs"
  by (cases e) auto

lemma fetch_each_events:
  "ev \<in> set (snd (fetch_each E service msgs acc)) \<Longrightarrow> \<exists>i r. ev = GmailGet i r"
  by (induction msgs arbitrary: acc) (auto split: sum.splits simp: Let_def)

lemma fetch_each_failed:
  "GmailGet i (Inl e) \<in> set (snd (fetch_each E service msgs acc)) \<Longrightarrow>
   fst (fetch_each E service msgs acc) = Inl e"
  by (induction msgs arbitrary: acc) (auto split: sum.splits simp: Let_def)

lemma fetch_each_ids:
  "fst (fetch_each E service msgs acc) = Inr emails \<Longrightarrow>
   map email_id emails = map email_id acc @ msgs"
  by (induction msgs arbitrary: acc) (auto split: sum.splits simp: Let_def)

lemma get_unread_emails_stage:
  assumes "ev \<in> set (snd (get_unread_emails E service n))"
  shows "stage ev \<le> 1 \<and> \<not> boundary ev"
proof (cases "messages_list service ''is:unread'' n")
  case (Inl e)
  with assms show ?thesis
    by (auto simp: get_unread_emails_def dest!: fetch_handler_events)
next
  case (Inr found)
  define messages where "messages = (case found of None \<Rightarrow> [] | Some ms \<Rightarrow> ms)"
  obtain r evs where each: "fetch_each E service messages [] = (r, evs)"
    by (cases "fetch_each E service messages []")
  have "stage x \<le> 1 \<and> \<not> boundary x" if "x \<in> set evs" for x
    using fetch_each_events [of x E service messages "[]"] that each by auto
  with assms Inr each show ?thesis
    by (cases r)
      (auto simp: get_unread_emails_def Let_def messages_def [symmetric] split: if_splits
        dest!: fetch_handler_events)
qed

lemma get_unread_emails_failed:
  assumes "GmailList q m (Inl e) \<in> set (snd (get_unread_emails E service n)) \<or>
           GmailGet i (Inl e) \<in> set (snd (get_unread_emails E service n))"
  shows "fst (get_unread_emails E service n) = (case e of HttpError s \<Rightarrow> Inr [] | _ \<Rightarrow> Inl e)"
proof (cases "messages_list service ''is:unread'' n")
  case (Inl e')
  with assms show ?thesis
    by (auto simp: get_unread_emails_def fetch_handler_fst fetch_handler_requests)
next
  case (Inr found)
  define messages where "messages = (case found of None \<Rightarrow> [] | Some ms \<Rightarrow> ms)"
  obtain r evs where each: "fetch_each E service messages [] = (r, evs)"
    by (cases "fetch_each E service messages []")
  have failed: "r = Inl e" if "GmailGet i (Inl e) \<in> set evs"
    using fetch_each_failed [of i e E service messages "[]"] that each by simp
  have listed: "GmailList q m (Inl e) \<notin> set evs"
    using fetch_each_events [of "GmailList q m (Inl e)" E service messages "[]"] each by auto
  from assms Inr each listed show ?thesis
    by (cases r)
      (auto simp: get_unread_emails_def Let_def messages_def [symmetric] fetch_handler_fst
        fetch_handler_requests split: if_splits dest!: failed)
qed

lemma get_unread_emails_never_HttpError:
  "fst (get_unread_emails E service n) \<noteq> Inl (HttpError s)"
proof (cases "messages_list service ''is:unread'' n")
  case (Inl e)
  then show ?thesis
    by (cases e) (simp_all add: get_unread_emails_def)
next
  case (Inr found)
  define messages where "messages = (case found of None \<Rightarrow> [] | Some ms \<Rightarrow> ms)"
  obtain r evs where each: "fetch_each E service messages [] = (r, evs)"
    by (cases "fetch_each E service messages []")
  show ?thesis
  proof (cases r)
    case (Inl e)
    with Inr each show ?thesis
      by (cases e) (simp_all add: get_unread_emails_def Let_def messages_def [symmetric])
  next
    case r: (Inr emails)
    with Inr each show ?thesis
      by (simp add: get_unread_emails_def Let_def messages_def [symmetric])
  qed
qed

text \<open>The records of a batch are those of the listed messages, in the order of the listing.\<close>

lemma get_unread_emails_ids:
  assumes "fst (get_unread_emails E service n) = Inr emails" and "emails \<noteq> []"
  shows "messages_list service ''is:unread'' n = Inr (Some (map email_id emails))"
proof (cases "messages_list service ''is:unread'' n")
  case (Inl e)
  with assms show ?thesis
    by (cases e) (simp_all add: get_unread_emails_def)
next
  case (Inr found)
  define messages where "messages = (case found of None \<Rightarrow> [] | Some ms \<Rightarrow> ms)"
  obtain r evs where each: "fetch_each E service messages [] = (r, evs)"
    by (cases "fetch_each E service messages []")
  show ?thesis
  proof (cases r)
    case (Inl e)
    with assms Inr each show ?thesis
      by (cases e)
        (simp_all add: get_unread_emails_def Let_def messages_def [symmetric] split: if_splits)
  next
    case r: (Inr batch)
    with assms Inr each have "batch = emails" and "messages \<noteq> []"
      by (simp_all add: get_unread_emails_def Let_def messages_def [symmetric] split: if_splits)
    with fetch_each_ids [of E service messages "[]" emails] each r
    have "map email_id emails = messages" by simp
    with \<open>messages \<noteq> []\<close> Inr show ?thesis
      by (cases found) (simp_all add: messages_def)
  qed
qed

lemma summarize_stage:
  "ev \<in> set (snd (summarize_emails_with_gemini E emails k)) \<Longrightarrow> stage ev = 2 \<and> \<not> boundary ev"
  by (auto simp: summarize_emails_with_gemini_def Let_def split: if_splits)

lemma send_stage:
  "ev \<in> set (snd (send_summary_email E summary s d r)) \<Longrightarrow>
   (stage ev = 0 \<or> stage ev = 3) \<and> \<not> boundary ev"
  by (auto simp: send_summary_email_def Let_def split: sum.splits)

lemma send_no_result:
  "SendResult x \<notin> set (snd (send_summary_email E summary s d r))"
  by (auto simp: send_summary_email_def Let_def split: sum.splits)

lemma mark_stage:
  "ev \<in> set (snd (mark_emails_as_read sv ids)) \<Longrightarrow>
   (stage ev = 0 \<or> stage ev = 4) \<and> \<not> boundary ev"
  by (auto simp: mark_emails_as_read_def Let_def split: sum.splits if_splits exn.splits)

lemma mark_requests:
  "GmailBatchModify ids' labels r \<in> set (snd (mark_emails_as_read sv ids)) \<longleftrightarrow>
   ids \<noteq> [] \<and> ids' = ids \<and> labels = [''UNREAD''] \<and> r = messages_batchModify sv ids [''UNREAD'']"
  by (auto simp: mark_emails_as_read_def Let_def split: sum.splits if_splits exn.splits)

lemma mark_no_call: "AckCall ids' \<notin> set (snd (mark_emails_as_read sv ids))"
  by (auto simp: mark_emails_as_read_def Let_def split: sum.splits if_splits exn.splits)

subsection \<open>Events of the segments\<close>

lemma fetch_segment_stage: "ev \<in> set (fetch_segment E sv) \<Longrightarrow> stage ev \<le> 1"
  by (auto simp: fetch_segment_def dest: get_unread_emails_stage)

lemma summarize_segment_stage:
  "ev \<in> set (summarize_segment E emails k) \<Longrightarrow> stage ev = 0 \<or> stage ev = 2"
  by (auto simp: summarize_segment_def dest: summarize_stage)

lemma send_segment_stage:
  "ev \<in> set (send_segment E summary s d r) \<Longrightarrow> stage ev = 0 \<or> stage ev = 3"
  by (auto simp: send_segment_def dest: send_stage)

lemma ack_segment_stage: "ev \<in> set (ack_segment sv emails) \<Longrightarrow> stage ev = 0 \<or> stage ev = 4"
  by (auto simp: ack_segment_def dest: mark_stage)

lemma failure_report_stage: "ev \<in> set (failure_report e) \<Longrightarrow> stage ev = 0"
  by (auto simp: failure_report_def)

lemmas segment_stage = fetch_segment_stage summarize_segment_stage send_segment_stage
  ack_segment_stage failure_report_stage

lemma FetchResult_in_fetch_segment:
  "FetchResult r \<in> set (fetch_segment E sv) \<longleftrightarrow> r = fst (get_unread_emails E sv 50)"
  by (auto simp: fetch_segment_def dest: get_unread_emails_stage)

lemma request_in_fetch_segment:
  "GmailList q m x \<in> set (fetch_segment E sv) \<longleftrightarrow> GmailList q m x \<in> set (snd (get_unread_emails E sv 50))"
  "GmailGet i y \<in> set (fetch_segment E sv) \<longleftrightarrow> GmailGet i y \<in> set (snd (get_unread_emails E sv 50))"
  by (auto simp: fetch_segment_def)

lemma SummarizeCall_in_summarize_segment:
  "SummarizeCall es k' \<in> set (summarize_segment E emails k) \<longleftrightarrow> es = emails \<and> k' = k"
  by (auto simp: summarize_segment_def dest: summarize_stage)

lemma SummarizeResult_in_summarize_segment:
  "SummarizeResult r \<in> set (summarize_segment E emails k) \<longleftrightarrow>
   r = fst (summarize_emails_with_gemini E emails k)"
  by (auto simp: summarize_segment_def dest: summarize_stage)

lemma SendResult_in_send_segment:
  "SendResult x \<in> set (send_segment E summary s d r) \<longleftrightarrow>
   x = fst (send_summary_email E summary s d r)"
  by (auto simp: send_segment_def send_no_result)

lemma AckCall_in_ack_segment:
  "AckCall ids \<in> set (ack_segment sv emails) \<longleftrightarrow> ids = map email_id emails"
  by (auto simp: ack_segment_def mark_no_call)

lemma AckResult_in_ack_segment:
  "AckResult x \<in> set (ack_segment sv emails) \<longleftrightarrow>
   x = fst (mark_emails_as_read sv (map email_id emails))"
  by (auto simp: ack_segment_def dest: mark_stage)

lemma BatchModify_in_ack_segment:
  "GmailBatchModify ids labels x \<in> set (ack_segment sv emails) \<longleftrightarrow>
   emails \<noteq> [] \<and> ids = map email_id emails \<and> labels = [''UNREAD''] \<and>
   x = messages_batchModify sv ids [''UNREAD'']"
  by (auto simp: ack_segment_def mark_requests)

lemmas in_segment = FetchResult_in_fetch_segment request_in_fetch_segment
  SummarizeCall_in_summarize_segment SummarizeResult_in_summarize_segment
  SendResult_in_send_segment AckCall_in_ack_segment AckResult_in_ack_segment
  BatchModify_in_ack_segment

subsection \<open>The ways through main\<close>

lemma preflight:
  assumes "filter (not_set E) required_vars = []"
  obtains k s d where "environ_item E ''GEMINI_API_KEY'' = Inr k"
    and "environ_item E ''SOURCE_EMAIL'' = Inr s"
    and "environ_item E ''DESTINATION_EMAIL'' = Inr d"
  using assms
  by (auto simp: required_vars_def not_set_def environ_item_def split: option.splits if_splits)

text \<open>
  The ten ways through \<^verbatim>\<open>main\<close>, each with what decides it, how \<^verbatim>\<open>main\<close> ends
  and the events of the run.
\<close>

lemma main_cases [case_names Missing CredsRaised BuildRaised FetchRaised Empty SummarizeRaised
    SendRaised SendFailed AckRaised Done]:
  assumes Missing: "filter (not_set E) required_vars \<noteq> [] \<Longrightarrow>
      main E = (SysExit 1, [Print (''Starting newsletter digest at '' @ now_str E),
        Print (''Error: Missing required environment variables: '' @
               join '', '' (filter (not_set E) required_vars))]) \<Longrightarrow> thesis"
  and CredsRaised: "\<And>e. load_gmail_credentials E = Inl e \<Longrightarrow>
      main E = (SysExit 1, [Print (''Starting newsletter digest at '' @ now_str E),
        Print ''Connecting to Gmail...''] @ failure_report e) \<Longrightarrow> thesis"
  and BuildRaised: "\<And>creds e. load_gmail_credentials E = Inr creds \<Longrightarrow>
      build_gmail E creds = Inl e \<Longrightarrow>
      main E = (SysExit 1, [Print (''Starting newsletter digest at '' @ now_str E),
        Print ''Connecting to Gmail...''] @ failure_report e) \<Longrightarrow> thesis"
  and FetchRaised: "\<And>creds sv e. load_gmail_credentials E = Inr creds \<Longrightarrow>
      build_gmail E creds = Inr sv \<Longrightarrow>
      fst (get_unread_emails E sv 50) = Inl e \<Longrightarrow>
      main E = (SysExit 1, fetch_segment E sv @ failure_report e) \<Longrightarrow> thesis"
  and Empty: "\<And>creds sv. load_gmail_credentials E = Inr creds \<Longrightarrow>
      build_gmail E creds = Inr sv \<Longrightarrow>
      fst (get_unread_emails E sv 50) = Inr [] \<Longrightarrow>
      main E = (Return, fetch_segment E sv @
        [Print ''No unread emails found. Nothing to do. Exiting successfully.'']) \<Longrightarrow> thesis"
  and SummarizeRaised: "\<And>creds sv emails k e. load_gmail_credentials E = Inr creds \<Longrightarrow>
      build_gmail E creds = Inr sv \<Longrightarrow>
      fst (get_unread_emails E sv 50) = Inr emails \<Longrightarrow> emails \<noteq> [] \<Longrightarrow>
      environ_item E ''GEMINI_API_KEY'' = Inr k \<Longrightarrow>
      fst (summarize_emails_with_gemini E emails k) = Inl e \<Longrightarrow>
      main E = (SysExit 1, fetch_segment E sv @ summarize_segment E emails k @
        [Print (''Failed to generate summary: '' @ exn_str e),
         Print ''Aborting. Emails will remain unread.'']) \<Longrightarrow> thesis"
  and SendRaised: "\<And>creds sv emails k summary s d r e. load_gmail_credentials E = Inr creds \<Longrightarrow>
      build_gmail E creds = Inr sv \<Longrightarrow>
      fst (get_unread_emails E sv 50) = Inr emails \<Longrightarrow> emails \<noteq> [] \<Longrightarrow>
      environ_item E ''GEMINI_API_KEY'' = Inr k \<Longrightarrow>
      fst (summarize_emails_with_gemini E emails k) = Inr summary \<Longrightarrow>
      environ_item E ''SOURCE_EMAIL'' = Inr s \<Longrightarrow>
      environ_item E ''DESTINATION_EMAIL'' = Inr d \<Longrightarrow>
      r = environ_get E ''AWS_REGION'' ''us-east-1'' \<Longrightarrow>
      fst (send_summary_email E summary s d r) = Inl e \<Longrightarrow>
      main E = (SysExit 1, fetch_segment E sv @ summarize_segment E emails k @
        send_segment E summary s d r @ failure_report e) \<Longrightarrow> thesis"
  and SendFailed: "\<And>creds sv emails k summary s d r. load_gmail_credentials E = Inr creds \<Longrightarrow>
      build_gmail E creds = Inr sv \<Longrightarrow>
      fst (get_unread_emails E sv 50) = Inr emails \<Longrightarrow> emails \<noteq> [] \<Longrightarrow>
      environ_item E ''GEMINI_API_KEY'' = Inr k \<Longrightarrow>
      fst (summarize_emails_with_gemini E emails k) = Inr summary \<Longrightarrow>
      environ_item E ''SOURCE_EMAIL'' = Inr s \<Longrightarrow>
      environ_item E ''DESTINATION_EMAIL'' = Inr d \<Longrightarrow>
      r = environ_get E ''AWS_REGION'' ''us-east-1'' \<Longrightarrow>
      fst (send_summary_email E summary s d r) = Inr False \<Longrightarrow>
      main E = (SysExit 1, fetch_segment E sv @ summarize_segment E emails k @
        send_segment E summary s d r @
        [Print ''Failed to send digest email. Aborting. Emails will remain unread.'']) \<Longrightarrow> thesis"
  and AckRaised: "\<And>creds sv emails k summary s d r e. load_gmail_credentials E = Inr creds \<Longrightarrow>
      build_gmail E creds = Inr sv \<Longrightarrow>
      fst (get_unread_emails E sv 50) = Inr emails \<Longrightarrow> emails \<noteq> [] \<Longrightarrow>
      environ_item E ''GEMINI_API_KEY'' = Inr k \<Longrightarrow>
      fst (summarize_emails_with_gemini E emails k) = Inr summary \<Longrightarrow>
      environ_item E ''SOURCE_EMAIL'' = Inr s \<Longrightarrow>
      environ_item E ''DESTINATION_EMAIL'' = Inr d \<Longrightarrow>
      r = environ_get E ''AWS_REGION'' ''us-east-1'' \<Longrightarrow>
      fst (send_summary_email E summary s d r) = Inr True \<Longrightarrow>
      fst (mark_emails_as_read sv (map email_id emails)) = Inl e \<Longrightarrow>
      main E = (SysExit 1, fetch_segment E sv @ summarize_segment E emails k @
        send_segment E summary s d r @ ack_segment sv emails @ failure_report e) \<Longrightarrow> thesis"
  and Done: "\<And>creds sv emails k summary s d r. load_gmail_credentials E = Inr creds \<Longrightarrow>
      build_gmail E creds = Inr sv \<Longrightarrow>
      fst (get_unread_emails E sv 50) = Inr emails \<Longrightarrow> emails \<noteq> [] \<Longrightarrow>
      environ_item E ''GEMINI_API_KEY'' = Inr k \<Longrightarrow>
      fst (summarize_emails_with_gemini E emails k) = Inr summary \<Longrightarrow>
      environ_item E ''SOURCE_EMAIL'' = Inr s \<Longrightarrow>
      environ_item E ''DESTINATION_EMAIL'' = Inr d \<Longrightarrow>
      r = environ_get E ''AWS_REGION'' ''us-east-1'' \<Longrightarrow>
      fst (send_summary_email E summary s d r) = Inr True \<Longrightarrow>
      fst (mark_emails_as_read sv (map email_id emails)) = Inr () \<Longrightarrow>
      main E = (Return, fetch_segment E sv @ summarize_segment E emails k @
        send_segment E summary s d r @ ack_segment sv emails @
        [Print ''Digest completed successfully!'']) \<Longrightarrow> thesis"
  shows thesis
proof (cases "filter (not_set E) required_vars = []")
  case False
  then show thesis by (intro Missing) (simp_all add: main_def Let_def)
next
  case True
  then obtain k s d where env: "environ_item E ''GEMINI_API_KEY'' = Inr k"
    "environ_item E ''SOURCE_EMAIL'' = Inr s" "environ_item E ''DESTINATION_EMAIL'' = Inr d"
    by (rule preflight)
  define r where "r = environ_get E ''AWS_REGION'' ''us-east-1''"
  have main_eq: "main E =
      (case fst (main_try E k s d r) of
         Inr x \<Rightarrow> (x, Print (''Starting newsletter digest at '' @ now_str E) #
                     snd (main_try E k s d r))
       | Inl e \<Rightarrow> (SysExit 1, Print (''Starting newsletter digest at '' @ now_str E) #
                     snd (main_try E k s d r) @ failure_report e))"
  proof (cases "main_try E k s d r")
    case (Pair a t)
    then show ?thesis
      using True env by (cases a) (simp_all add: main_def Let_def r_def failure_report_def)
  qed
  note defs = main_eq main_try_def fetch_segment_def summarize_segment_def send_segment_def
    ack_segment_def Let_def
  show thesis
  proof (cases "load_gmail_credentials E")
    case (Inl e)
    show thesis by (rule CredsRaised [OF Inl]) (simp add: defs Inl)
  next
    case creds: (Inr creds)
    show thesis
    proof (cases "build_gmail E creds")
      case (Inl e)
      show thesis by (rule BuildRaised [OF creds Inl]) (simp add: defs creds Inl)
    next
      case sv: (Inr sv)
      show thesis
      proof (cases "fst (get_unread_emails E sv 50)")
        case (Inl e)
        show thesis by (rule FetchRaised [OF creds sv Inl]) (simp add: defs creds sv Inl)
      next
        case emails: (Inr emails)
        show thesis
        proof (cases "emails = []")
          case True
          with emails have empty: "fst (get_unread_emails E sv 50) = Inr []" by simp
          show thesis by (rule Empty [OF creds sv empty]) (simp add: defs creds sv empty)
        next
          case nonempty: False
          show thesis
          proof (cases "fst (summarize_emails_with_gemini E emails k)")
            case (Inl e)
            show thesis
              by (rule SummarizeRaised [OF creds sv emails nonempty env(1) Inl])
                (simp add: defs creds sv emails nonempty Inl)
          next
            case summary: (Inr summary)
            show thesis
            proof (cases "fst (send_summary_email E summary s d r)")
              case (Inl e)
              show thesis
                by (rule SendRaised [OF creds sv emails nonempty env(1) summary env(2,3) r_def Inl])
                  (simp add: defs creds sv emails nonempty summary Inl)
            next
              case (Inr success)
              show thesis
              proof (cases success)
                case False
                with Inr have failed: "fst (send_summary_email E summary s d r) = Inr False"
                  by simp
                show thesis
                  by (rule SendFailed [OF creds sv emails nonempty env(1) summary env(2,3) r_def failed])
                    (simp add: defs creds sv emails nonempty summary failed)
              next
                case True
                with Inr have sent: "fst (send_summary_email E summary s d r) = Inr True"
                  by simp
                show thesis
                proof (cases "fst (mark_emails_as_read sv (map email_id emails))")
                  case (Inl e)
                  show thesis
                    by (rule AckRaised [OF creds sv emails nonempty env(1) summary env(2,3) r_def sent Inl])
                      (simp add: defs creds sv emails nonempty summary sent Inl)
                next
                  case (Inr u)
                  then have acked: "fst (mark_emails_as_read sv (map email_id emails)) = Inr ()"
                    by simp
                  show thesis
                    by (rule Done [OF creds sv emails nonempty env(1) summary env(2,3) r_def sent acked])
                      (simp add: defs creds sv emails nonempty summary sent acked)
                qed
              qed
            qed
          qed
        qed
      qed
    qed
  qed
qed

lemmas event_stage = ack_event_stage send_event_stage summarize_event_stage

lemma not_in_segment:
  "1 < stage ev \<Longrightarrow> ev \<notin> set (fetch_segment E sv)"
  "stage ev \<noteq> 0 \<Longrightarrow> stage ev \<noteq> 2 \<Longrightarrow> ev \<notin> set (summarize_segment E emails k)"
  "stage ev \<noteq> 0 \<Longrightarrow> stage ev \<noteq> 3 \<Longrightarrow> ev \<notin> set (send_segment E summary s d r)"
  "stage ev \<noteq> 0 \<Longrightarrow> stage ev \<noteq> 4 \<Longrightarrow> ev \<notin> set (ack_segment sv emails)"
  "stage ev \<noteq> 0 \<Longrightarrow> ev \<notin> set (failure_report e)"
  using segment_stage [of ev] by fastforce+

lemma stage_bound:
  "1 \<le> n \<Longrightarrow> \<forall>ev\<in>set (fetch_segment E sv). stage ev \<le> n"
  "2 \<le> n \<Longrightarrow> \<forall>ev\<in>set (summarize_segment E emails k). stage ev \<le> n"
  "3 \<le> n \<Longrightarrow> \<forall>ev\<in>set (send_segment E summary s d r). stage ev \<le> n"
  "\<forall>ev\<in>set (failure_report e). stage ev \<le> n"
  using segment_stage by fastforce+

lemma stage_bound_events:
  assumes "\<forall>ev\<in>set evs. stage ev \<le> n"
  shows "n < 4 \<Longrightarrow> \<forall>ev\<in>set evs. \<not> ack_event ev"
    and "n < 3 \<Longrightarrow> \<forall>ev\<in>set evs. \<not> send_event ev"
    and "n < 2 \<Longrightarrow> \<forall>ev\<in>set evs. \<not> summarize_event ev"
  using assms by (fastforce dest: event_stage)+

text \<open>
  \<^verbatim>\<open>main\<close> returns or calls \<^verbatim>\<open>sys.exit(1)\<close>: after the check of the required
  variables, \<^verbatim>\<open>os.environ[...]\<close> cannot raise.
\<close>

lemma main_exit: "fst (main E) = Return \<or> fst (main E) = SysExit 1"
  by (cases E rule: main_cases) simp_all

subsection \<open>Acknowledgement comes after the send\<close>

lemma guarded_append:
  "guarded b (xs @ ys) = (guarded b xs \<and> guarded (b \<or> SendResult (Inr True) \<in> set xs) ys)"
  by (induction xs arbitrary: b) (auto simp: eq_commute [of "SendResult (Inr True)"])

lemma guarded_no_ack: "\<forall>ev\<in>set xs. \<not> ack_event ev \<Longrightarrow> guarded b xs"
  by (induction xs arbitrary: b) auto

lemma guarded_True: "guarded True xs"
  by (induction xs) auto

lemma guarded_split:
  "guarded b (pre @ ev # post) \<Longrightarrow> ack_event ev \<Longrightarrow> b \<or> SendResult (Inr True) \<in> set pre"
  by (simp add: guarded_append)

lemma no_ack_unread_after: "\<forall>ev\<in>set xs. \<not> ack_event ev \<Longrightarrow> unread_after xs u = u"
  by (induction xs u rule: unread_after.induct) auto

lemma guarded_segments:
  "guarded b (fetch_segment E sv)"
  "guarded b (summarize_segment E emails k)"
  "guarded b (send_segment E summary s d r)"
  "guarded b (failure_report e)"
  by (rule guarded_no_ack, rule stage_bound_events(1) [where n = 3], rule stage_bound; simp)+

lemma main_guarded: "guarded False (snd (main E))"
  by (cases E rule: main_cases)
    (simp_all add: guarded_append guarded_segments guarded_True in_segment)

lemma main_no_send_no_ack:
  assumes "SendResult (Inr True) \<notin> set (snd (main E))" and "ev \<in> set (snd (main E))"
  shows "\<not> ack_event ev"
proof
  assume ack: "ack_event ev"
  from assms(2) obtain pre post where split: "snd (main E) = pre @ ev # post"
    by (auto dest: split_list)
  with main_guarded [of E] ack have "SendResult (Inr True) \<in> set pre"
    by (auto dest: guarded_split)
  with split assms(1) show False by simp
qed

subsection \<open>The other ways through main\<close>

lemma main_empty_batch:
  assumes "FetchResult (Inr []) \<in> set (snd (main E))"
  shows "fst (main E) = Return \<and> (\<forall>ev\<in>set (snd (main E)). stage ev \<le> 1)"
  using assms
  by (cases E rule: main_cases) (simp_all add: in_segment not_in_segment stage_bound ball_Un)

lemma main_summarize_raised:
  assumes "SummarizeResult (Inl e) \<in> set (snd (main E))"
  shows "fst (main E) = SysExit 1 \<and> (\<forall>ev\<in>set (snd (main E)). stage ev \<le> 2)"
  using assms
  by (cases E rule: main_cases) (simp_all add: in_segment not_in_segment stage_bound ball_Un)

lemmas path_simps = in_segment not_in_segment stage_bound ball_Un

subsection \<open>The send\<close>

lemma send_raises_iff:
  "fst (send_summary_email E summary s d r) = Inl e \<longleftrightarrow>
   boto3_client E r = Inl e \<or>
   (\<exists>client. boto3_client E r = Inr client) \<and>
   (MIMEText E (text_body (digest_subject E) summary) ''plain'' = Inl e \<or>
    (\<exists>p. MIMEText E (text_body (digest_subject E) summary) ''plain'' = Inr p) \<and>
    MIMEText E (html_body (digest_subject E) summary) ''html'' = Inl e)"
  by (auto simp: send_summary_email_def Let_def split: sum.splits)

lemma send_request_failed:
  "SesSendRawEmail a b c (Inl e) \<in> set (snd (send_summary_email E summary s d r)) \<Longrightarrow>
   fst (send_summary_email E summary s d r) = Inr False"
  by (auto simp: send_summary_email_def Let_def split: sum.splits)

lemma main_send_not_confirmed:
  assumes "SendResult x \<in> set (snd (main E))" and "x \<noteq> Inr True"
  shows "fst (main E) = SysExit 1 \<and> (\<forall>ev\<in>set (snd (main E)). stage ev \<le> 3)"
  using assms
  by (cases E rule: main_cases) (simp_all add: path_simps)

lemma send_True_iff:
  "fst (send_summary_email E summary s d r) = Inr True \<longleftrightarrow>
   (\<exists>a b c mid. SesSendRawEmail a b c (Inr mid) \<in> set (snd (send_summary_email E summary s d r)))"
  by (auto simp: send_summary_email_def Let_def split: sum.splits)

subsection \<open>The acknowledgement\<close>

lemma mark_request_HttpError:
  assumes "GmailBatchModify ids' labels (Inl (HttpError s)) \<in> set (snd (mark_emails_as_read sv ids))"
  shows "fst (mark_emails_as_read sv ids) = Inr ()"
    and "Print (''Error marking emails as read: '' @ s) \<in> set (snd (mark_emails_as_read sv ids))"
  using assms
  by (auto simp: mark_emails_as_read_def Let_def split: if_splits sum.splits exn.splits)

lemma mark_request_other_exception:
  assumes "GmailBatchModify ids' labels (Inl e) \<in> set (snd (mark_emails_as_read sv ids))"
    and "\<forall>s. e \<noteq> HttpError s"
  shows "fst (mark_emails_as_read sv ids) = Inl e"
  using assms
  by (auto simp: mark_emails_as_read_def Let_def split: if_splits sum.splits exn.splits)

lemma in_ack_segment:
  "GmailBatchModify ids labels x \<in> set (ack_segment sv emails) \<longleftrightarrow>
   GmailBatchModify ids labels x \<in> set (snd (mark_emails_as_read sv (map email_id emails)))"
  "Print y \<in> set (snd (mark_emails_as_read sv (map email_id emails))) \<Longrightarrow>
   Print y \<in> set (ack_segment sv emails)"
  by (simp_all add: ack_segment_def)

lemmas request_simps = FetchResult_in_fetch_segment SendResult_in_send_segment
  AckResult_in_ack_segment in_ack_segment(1) not_in_segment

subsection \<open>A failure of the fetch\<close>

lemma main_fetch_request_failed:
  assumes "GmailList q m (Inl e) \<in> set (snd (main E)) \<or> GmailGet i (Inl e) \<in> set (snd (main E))"
  shows "(case e of
            HttpError s \<Rightarrow> FetchResult (Inr []) \<in> set (snd (main E)) \<and> fst (main E) = Return
          | _ \<Rightarrow> FetchResult (Inl e) \<in> set (snd (main E)) \<and> fst (main E) = SysExit 1) \<and>
         (\<forall>ev\<in>set (snd (main E)). stage ev \<le> 1)"
  using assms
  by (cases E rule: main_cases)
    (auto simp: path_simps split: exn.splits
      dest!: get_unread_emails_failed [OF disjI1] get_unread_emails_failed [OF disjI2])

subsection \<open>The body of a message\<close>

lemma extract_body_parts_find:
  "extract_body_parts E ps =
     (case find plain_with_data ps of
        None \<Rightarrow> Inr []
      | Some p \<Rightarrow> b64_utf8_decode E (the (body_data (part_body p))))"
  by (induction ps) (auto simp: plain_with_data_def)

lemma extract_body_parts_raises:
  "extract_body_parts E ps = Inl e \<Longrightarrow> \<exists>d. b64_utf8_decode E d = Inl e"
  by (induction ps) (auto split: if_splits option.splits)

subsection \<open>The example runs\<close>

lemmas example_defs = demo_env_def example_env_def demo_environ_def demo_service_def
  demo_client_def demo_message1_def demo_message2_def demo_decode_def demo_emails_def
  list_fails_service_def list_fails_env_def get_fails_service_def get_fails_env_def
  empty_service_def empty_env_def ack_fails_service_def ack_fails_env_def
  summarize_fails_env_def send_fails_env_def bad_region_env_def

lemmas env_defs = demo_env_def list_fails_env_def get_fails_env_def empty_env_def
  ack_fails_env_def summarize_fails_env_def send_fails_env_def

lemmas error_defs = timeout_error_def quota_error_def rejected_error_def region_error_def

lemmas preflight_defs = required_vars_def not_set_def environ_item_def environ_get_def
  load_gmail_credentials_def

lemmas run_defs = main_def main_try_def Let_def fetch_segment_def summarize_segment_def
  send_segment_def ack_segment_def failure_report_def

text \<open>Every example environment passes the checks at the start and connects.\<close>

lemma example_env_connects:
  "filter (not_set (example_env sv g x)) required_vars = []"
  "environ_item (example_env sv g x) ''GEMINI_API_KEY'' = Inr ''gemini-key''"
  "environ_item (example_env sv g x) ''SOURCE_EMAIL'' = Inr ''digest@example.com''"
  "environ_item (example_env sv g x) ''DESTINATION_EMAIL'' = Inr ''me@example.com''"
  "environ_get (example_env sv g x) ''AWS_REGION'' ''us-east-1'' = ''us-east-1''"
  "load_gmail_credentials (example_env sv g x) = Inr ''credentials''"
  "build_gmail (example_env sv g x) c = Inr sv"
  "now_str (example_env sv g x) = ''2026-01-01 08:00:00.000000''"
  by (simp_all add: preflight_defs example_defs)

lemma error_strs:
  "exn_str timeout_error = ''timed out''" "exn_str quota_error = ''429 quota exceeded''"
  "exn_str rejected_error = ''MessageRejected''" "exn_str region_error = ''us east 1''"
  by (simp_all add: error_defs)

text \<open>The operations in the example environments.\<close>

lemma example_fetch:
  "get_unread_emails (example_env sv g x) demo_service 50 =
     (Inr demo_emails,
      [GmailList ''is:unread'' 50 (Inr (Some [''m1'', ''m2''])),
       GmailGet ''m1'' (Inr demo_message1), GmailGet ''m2'' (Inr demo_message2)])"
  "get_unread_emails (example_env sv g x) (ack_fails_service e) 50 =
     (Inr demo_emails,
      [GmailList ''is:unread'' 50 (Inr (Some [''m1'', ''m2''])),
       GmailGet ''m1'' (Inr demo_message1), GmailGet ''m2'' (Inr demo_message2)])"
  "get_unread_emails (example_env sv g x) empty_service 50 =
     (Inr [], [GmailList ''is:unread'' 50 (Inr None), Print ''No unread messages found.''])"
  "get_unread_emails (example_env sv g x) list_fails_service 50 =
     (Inr [],
      [GmailList ''is:unread'' 50 (Inl (HttpError ''HttpError 500'')),
       Print ''An error occurred: HttpError 500''])"
  "get_unread_emails (example_env sv g x) (get_fails_service (HttpError ''HttpError 404'')) 50 =
     (Inr [],
      [GmailList ''is:unread'' 50 (Inr (Some [''m1'', ''m2''])),
       GmailGet ''m1'' (Inr demo_message1), GmailGet ''m2'' (Inl (HttpError ''HttpError 404'')),
       Print ''An error occurred: HttpError 404''])"
  "get_unread_emails (example_env sv g x) (get_fails_service timeout_error) 50 =
     (Inl timeout_error,
      [GmailList ''is:unread'' 50 (Inr (Some [''m1'', ''m2''])),
       GmailGet ''m1'' (Inr demo_message1), GmailGet ''m2'' (Inl timeout_error)])"
  by (simp_all add: get_unread_emails_def extract_body_def Let_def example_defs timeout_error_def)

lemma demo_emails_simps:
  "demo_emails \<noteq> []" "map email_id demo_emails = [''m1'', ''m2'']" "length demo_emails = 2"
  by (simp_all add: demo_emails_def)

lemma example_summarize:
  "summarize_emails_with_gemini (example_env sv g x) demo_emails k =
     (g, [GenerateContent k ''gemini-2.5-flash'' (build_prompt demo_emails) g])"
  by (simp add: summarize_emails_with_gemini_def Let_def example_env_def demo_emails_simps)

lemma example_send:
  "send_summary_email (example_env sv g (Inr mid)) summary s d r =
     (Inr True,
      [SesSendRawEmail s [d] ''MIME-Version: 1.0'' (Inr mid),
       Print (''Email sent! Message ID: '' @ mid)])"
  "send_summary_email (example_env sv g (Inl e)) summary s d r =
     (Inr False,
      [SesSendRawEmail s [d] ''MIME-Version: 1.0'' (Inl e),
       Print (''Error sending email: '' @ exn_str e)])"
  by (simp_all add: send_summary_email_def Let_def example_env_def)

lemma example_mark:
  "mark_emails_as_read demo_service [''m1'', ''m2''] =
     (Inr (),
      [GmailBatchModify [''m1'', ''m2''] [''UNREAD''] (Inr ()), Print ''Marked 2 emails as read.''])"
  "mark_emails_as_read (ack_fails_service (HttpError ''HttpError 403'')) [''m1'', ''m2''] =
     (Inr (),
      [GmailBatchModify [''m1'', ''m2''] [''UNREAD''] (Inl (HttpError ''HttpError 403'')),
       Print ''Error marking emails as read: HttpError 403''])"
  "mark_emails_as_read (ack_fails_service timeout_error) [''m1'', ''m2''] =
     (Inl timeout_error, [GmailBatchModify [''m1'', ''m2''] [''UNREAD''] (Inl timeout_error)])"
  by (simp_all add: mark_emails_as_read_def Let_def example_defs timeout_error_def
      str_nat.simps)

lemma bad_region_facts:
  "filter (not_set bad_region_env) required_vars = []"
  "environ_item bad_region_env ''GEMINI_API_KEY'' = Inr ''gemini-key''"
  "environ_item bad_region_env ''SOURCE_EMAIL'' = Inr ''digest@example.com''"
  "environ_item bad_region_env ''DESTINATION_EMAIL'' = Inr ''me@example.com''"
  "environ_get bad_region_env ''AWS_REGION'' ''us-east-1'' = ''us east 1''"
  "load_gmail_credentials bad_region_env = Inr ''credentials''"
  "build_gmail bad_region_env c = Inr demo_service"
  "now_str bad_region_env = ''2026-01-01 08:00:00.000000''"
  "get_unread_emails bad_region_env demo_service 50 =
     (Inr demo_emails,
      [GmailList ''is:unread'' 50 (Inr (Some [''m1'', ''m2''])),
       GmailGet ''m1'' (Inr demo_message1), GmailGet ''m2'' (Inr demo_message2)])"
  "summarize_emails_with_gemini bad_region_env demo_emails k =
     (Inr ''Topic A: ...'',
      [GenerateContent k ''gemini-2.5-flash'' (build_prompt demo_emails) (Inr ''Topic A: ...'')])"
  "send_summary_email bad_region_env summary s d ''us east 1'' = (Inl region_error, [])"
  by (simp_all add: preflight_defs example_defs get_unread_emails_def extract_body_def
      summarize_emails_with_gemini_def send_summary_email_def Let_def)

lemmas example_facts = example_env_connects example_fetch demo_emails_simps example_summarize
  example_send example_mark error_strs

text \<open>The example runs in full.\<close>

lemma main_demo_env:
  "main demo_env =
     (Return,
      [Print ''Starting newsletter digest at 2026-01-01 08:00:00.000000'',
       Print ''Connecting to Gmail...'', Print ''Fetching unread emails...'', FetchCall 50,
       GmailList ''is:unread'' 50 (Inr (Some [''m1'', ''m2''])),
       GmailGet ''m1'' (Inr demo_message1), GmailGet ''m2'' (Inr demo_message2),
       FetchResult (Inr demo_emails), Print ''Found 2 unread emails.'',
       Print ''Generating summary with Gemini AI...'', SummarizeCall demo_emails ''gemini-key'',
       GenerateContent ''gemini-key'' ''gemini-2.5-flash'' (build_prompt demo_emails) (Inr ''Topic A: ...''),
       SummarizeResult (Inr ''Topic A: ...''), Print ''Summary generated successfully.'',
       Print ''Sending digest email...'',
       SendCall ''Topic A: ...'' ''digest@example.com'' ''me@example.com'' ''us-east-1'',
       SesSendRawEmail ''digest@example.com'' [''me@example.com''] ''MIME-Version: 1.0'' (Inr ''abc123''),
       Print ''Email sent! Message ID: abc123'', SendResult (Inr True),
       Print ''Marking emails as read...'', AckCall [''m1'', ''m2''],
       GmailBatchModify [''m1'', ''m2''] [''UNREAD''] (Inr ()),
       Print ''Marked 2 emails as read.'', AckResult (Inr ()),
       Print ''Digest completed successfully!''])"
  by (simp add: run_defs example_facts env_defs str_nat.simps)

lemma main_empty_env:
  "main empty_env =
     (Return,
      [Print ''Starting newsletter digest at 2026-01-01 08:00:00.000000'',
       Print ''Connecting to Gmail...'', Print ''Fetching unread emails...'', FetchCall 50,
       GmailList ''is:unread'' 50 (Inr None), Print ''No unread messages found.'',
       FetchResult (Inr []),
       Print ''No unread emails found. Nothing to do. Exiting successfully.''])"
  by (simp add: run_defs example_facts env_defs str_nat.simps)

lemma main_list_fails_env:
  "main list_fails_env =
     (Return,
      [Print ''Starting newsletter digest at 2026-01-01 08:00:00.000000'',
       Print ''Connecting to Gmail...'', Print ''Fetching unread emails...'', FetchCall 50,
       GmailList ''is:unread'' 50 (Inl (HttpError ''HttpError 500'')),
       Print ''An error occurred: HttpError 500'', FetchResult (Inr []),
       Print ''No unread emails found. Nothing to do. Exiting successfully.''])"
  by (simp add: run_defs example_facts env_defs str_nat.simps)

lemma main_get_fails_env_http:
  "main (get_fails_env (HttpError ''HttpError 404'')) =
     (Return,
      [Print ''Starting newsletter digest at 2026-01-01 08:00:00.000000'',
       Print ''Connecting to Gmail...'', Print ''Fetching unread emails...'', FetchCall 50,
       GmailList ''is:unread'' 50 (Inr (Some [''m1'', ''m2''])),
       GmailGet ''m1'' (Inr demo_message1), GmailGet ''m2'' (Inl (HttpError ''HttpError 404'')),
       Print ''An error occurred: HttpError 404'', FetchResult (Inr []),
       Print ''No unread emails found. Nothing to do. Exiting successfully.''])"
  by (simp add: run_defs example_facts env_defs str_nat.simps)

lemma main_get_fails_env_timeout:
  "main (get_fails_env timeout_error) =
     (SysExit 1,
      [Print ''Starting newsletter digest at 2026-01-01 08:00:00.000000'',
       Print ''Connecting to Gmail...'', Print ''Fetching unread emails...'', FetchCall 50,
       GmailList ''is:unread'' 50 (Inr (Some [''m1'', ''m2''])),
       GmailGet ''m1'' (Inr demo_message1), GmailGet ''m2'' (Inl timeout_error),
       FetchResult (Inl timeout_error), Print ''Error during execution: timed out'',
       PrintExc timeout_error])"
  by (simp add: run_defs example_facts env_defs str_nat.simps)

lemma main_summarize_fails_env:
  "main summarize_fails_env =
     (SysExit 1,
      [Print ''Starting newsletter digest at 2026-01-01 08:00:00.000000'',
       Print ''Connecting to Gmail...'', Print ''Fetching unread emails...'', FetchCall 50,
       GmailList ''is:unread'' 50 (Inr (Some [''m1'', ''m2''])),
       GmailGet ''m1'' (Inr demo_message1), GmailGet ''m2'' (Inr demo_message2),
       FetchResult (Inr demo_emails), Print ''Found 2 unread emails.'',
       Print ''Generating summary with Gemini AI...'', SummarizeCall demo_emails ''gemini-key'',
       GenerateContent ''gemini-key'' ''gemini-2.5-flash'' (build_prompt demo_emails) (Inl quota_error),
       SummarizeResult (Inl quota_error),
       Print ''Failed to generate summary: 429 quota exceeded'',
       Print ''Aborting. Emails will remain unread.''])"
  by (simp add: run_defs example_facts env_defs str_nat.simps)

lemma main_send_fails_env:
  "main send_fails_env =
     (SysExit 1,
      [Print ''Starting newsletter digest at 2026-01-01 08:00:00.000000'',
       Print ''Connecting to Gmail...'', Print ''Fetching unread emails...'', FetchCall 50,
       GmailList ''is:unread'' 50 (Inr (Some [''m1'', ''m2''])),
       GmailGet ''m1'' (Inr demo_message1), GmailGet ''m2'' (Inr demo_message2),
       FetchResult (Inr demo_emails), Print ''Found 2 unread emails.'',
       Print ''Generating summary with Gemini AI...'', SummarizeCall demo_emails ''gemini-key'',
       GenerateContent ''gemini-key'' ''gemini-2.5-flash'' (build_prompt demo_emails) (Inr ''Topic A: ...''),
       SummarizeResult (Inr ''Topic A: ...''), Print ''Summary generated successfully.'',
       Print ''Sending digest email...'',
       SendCall ''Topic A: ...'' ''digest@example.com'' ''me@example.com'' ''us-east-1'',
       SesSendRawEmail ''digest@example.com'' [''me@example.com''] ''MIME-Version: 1.0'' (Inl rejected_error),
       Print ''Error sending email: MessageRejected'', SendResult (Inr False),
       Print ''Failed to send digest email. Aborting. Emails will remain unread.''])"
  by (simp add: run_defs example_facts env_defs str_nat.simps)

lemma main_bad_region_env:
  "main bad_region_env =
     (SysExit 1,
      [Print ''Starting newsletter digest at 2026-01-01 08:00:00.000000'',
       Print ''Connecting to Gmail...'', Print ''Fetching unread emails...'', FetchCall 50,
       GmailList ''is:unread'' 50 (Inr (Some [''m1'', ''m2''])),
       GmailGet ''m1'' (Inr demo_message1), GmailGet ''m2'' (Inr demo_message2),
       FetchResult (Inr demo_emails), Print ''Found 2 unread emails.'',
       Print ''Generating summary with Gemini AI...'', SummarizeCall demo_emails ''gemini-key'',
       GenerateContent ''gemini-key'' ''gemini-2.5-flash'' (build_prompt demo_emails) (Inr ''Topic A: ...''),
       SummarizeResult (Inr ''Topic A: ...''), Print ''Summary generated successfully.'',
       Print ''Sending digest email...'',
       SendCall ''Topic A: ...'' ''digest@example.com'' ''me@example.com'' ''us east 1'',
       SendResult (Inl region_error), Print ''Error during execution: us east 1'',
       PrintExc region_error])"
  by (simp add: run_defs bad_region_facts demo_emails_simps error_strs str_nat.simps)

lemma main_ack_fails_env_http:
  "main (ack_fails_env (HttpError ''HttpError 403'')) =
     (Return,
      [Print ''Starting newsletter digest at 2026-01-01 08:00:00.000000'',
       Print ''Connecting to Gmail...'', Print ''Fetching unread emails...'', FetchCall 50,
       GmailList ''is:unread'' 50 (Inr (Some [''m1'', ''m2''])),
       GmailGet ''m1'' (Inr demo_message1), GmailGet ''m2'' (Inr demo_message2),
       FetchResult (Inr demo_emails), Print ''Found 2 unread emails.'',
       Print ''Generating summary with Gemini AI...'', SummarizeCall demo_emails ''gemini-key'',
       GenerateContent ''gemini-key'' ''gemini-2.5-flash'' (build_prompt demo_emails) (Inr ''Topic A: ...''),
       SummarizeResult (Inr ''Topic A: ...''), Print ''Summary generated successfully.'',
       Print ''Sending digest email...'',
       SendCall ''Topic A: ...'' ''digest@example.com'' ''me@example.com'' ''us-east-1'',
       SesSendRawEmail ''digest@example.com'' [''me@example.com''] ''MIME-Version: 1.0'' (Inr ''abc123''),
       Print ''Email sent! Message ID: abc123'', SendResult (Inr True),
       Print ''Marking emails as read...'', AckCall [''m1'', ''m2''],
       GmailBatchModify [''m1'', ''m2''] [''UNREAD''] (Inl (HttpError ''HttpError 403'')),
       Print ''Error marking emails as read: HttpError 403'', AckResult (Inr ()),
       Print ''Digest completed successfully!''])"
  by (simp add: run_defs example_facts env_defs str_nat.simps)

lemma main_ack_fails_env_timeout:
  "main (ack_fails_env timeout_error) =
     (SysExit 1,
      [Print ''Starting newsletter digest at 2026-01-01 08:00:00.000000'',
       Print ''Connecting to Gmail...'', Print ''Fetching unread emails...'', FetchCall 50,
       GmailList ''is:unread'' 50 (Inr (Some [''m1'', ''m2''])),
       GmailGet ''m1'' (Inr demo_message1), GmailGet ''m2'' (Inr demo_message2),
       FetchResult (Inr demo_emails), Print ''Found 2 unread emails.'',
       Print ''Generating summary with Gemini AI...'', SummarizeCall demo_emails ''gemini-key'',
       GenerateContent ''gemini-key'' ''gemini-2.5-flash'' (build_prompt demo_emails) (Inr ''Topic A: ...''),
       SummarizeResult (Inr ''Topic A: ...''), Print ''Summary generated successfully.'',
       Print ''Sending digest email...'',
       SendCall ''Topic A: ...'' ''digest@example.com'' ''me@example.com'' ''us-east-1'',
       SesSendRawEmail ''digest@example.com'' [''me@example.com''] ''MIME-Version: 1.0'' (Inr ''abc123''),
       Print ''Email sent! Message ID: abc123'', SendResult (Inr True),
       Print ''Marking emails as read...'', AckCall [''m1'', ''m2''],
       GmailBatchModify [''m1'', ''m2''] [''UNREAD''] (Inl timeout_error),
       AckResult (Inl timeout_error), Print ''Error during execution: timed out'',
       PrintExc timeout_error])"
  by (simp add: run_defs example_facts env_defs str_nat.simps)

section \<open>The claims\<close>

text \<open>
  Claim C1. In every run an acknowledge event (a call of \<^verbatim>\<open>mark_emails_as_read\<close> or a
  \<^verbatim>\<open>batchModify\<close> request) comes only after \<^verbatim>\<open>send_summary_email\<close> has been called and has
  returned \<^verbatim>\<open>True\<close>: however the events of the run are split around an acknowledge event, the
  event \<open>SendResult (Inr True)\<close> is among the earlier ones. A run without that event has no
  acknowledge event at all and leaves the unread messages of the mailbox as they were.
\<close>

theorem acknowledge_only_after_confirmed_send:
  "(\<forall>pre ev post. snd (main E) = pre @ ev # post \<and> ack_event ev \<longrightarrow>
      SendResult (Inr True) \<in> set pre) \<and>
   (SendResult (Inr True) \<notin> set (snd (main E)) \<longrightarrow>
      (\<forall>ev\<in>set (snd (main E)). \<not> ack_event ev) \<and> unread_after (snd (main E)) u = u)"
proof (intro conjI allI impI ballI)
  fix pre ev post
  assume "snd (main E) = pre @ ev # post \<and> ack_event ev"
  with main_guarded [of E] show "SendResult (Inr True) \<in> set pre"
    by (auto dest: guarded_split)
next
  fix ev
  assume "SendResult (Inr True) \<notin> set (snd (main E))" and "ev \<in> set (snd (main E))"
  then show "\<not> ack_event ev" by (rule main_no_send_no_ack)
next
  assume "SendResult (Inr True) \<notin> set (snd (main E))"
  then have "\<forall>ev\<in>set (snd (main E)). \<not> ack_event ev"
    by (auto dest: main_no_send_no_ack)
  then show "unread_after (snd (main E)) u = u" by (rule no_ack_unread_after)
qed

text \<open>
  Claim C1, at the example run (the call of \<^verbatim>\<open>mark_emails_as_read\<close> is its event 20) and at
  the run in which SES rejects the message.
\<close>

theorem acknowledge_only_after_confirmed_send_witness:
  "snd (main demo_env) =
     take 20 (snd (main demo_env)) @ AckCall [''m1'', ''m2''] # drop 21 (snd (main demo_env)) \<and>
   ack_event (AckCall [''m1'', ''m2'']) \<and>
   SendResult (Inr True) \<in> set (take 20 (snd (main demo_env))) \<and>
   SendResult (Inr True) \<notin> set (snd (main send_fails_env)) \<and>
   unread_after (snd (main send_fails_env)) {''m1'', ''m2''} = {''m1'', ''m2''}"
proof -
  have split: "snd (main demo_env) =
      take 20 (snd (main demo_env)) @ AckCall [''m1'', ''m2''] # drop 21 (snd (main demo_env)) \<and>
      ack_event (AckCall [''m1'', ''m2''])"
    by (simp add: main_demo_env)
  have unsent: "SendResult (Inr True) \<notin> set (snd (main send_fails_env))"
    by (simp add: main_send_fails_env)
  note after_send = acknowledge_only_after_confirmed_send [of demo_env "{''m1'', ''m2''}",
      THEN conjunct1, rule_format, OF split]
  note untouched = acknowledge_only_after_confirmed_send [of send_fails_env "{''m1'', ''m2''}",
      THEN conjunct2, rule_format, OF unsent, THEN conjunct2]
  from split unsent after_send untouched show ?thesis by (intro conjI) simp_all
qed

text \<open>
  Claim C2 fails: when the listing request, or the request for the second message, is answered
  with an \<^verbatim>\<open>HttpError\<close>, \<^verbatim>\<open>get_unread_emails\<close> returns the empty list instead of
  failing, and the process exits with status 0.
\<close>

theorem fetch_http_error_is_not_fatal:
  "GmailList ''is:unread'' 50 (Inl (HttpError ''HttpError 500'')) \<in> set (snd (main list_fails_env)) \<and>
   fst (get_unread_emails list_fails_env list_fails_service 50) = Inr [] \<and>
   exit_status (fst (main list_fails_env)) = 0 \<and>
   GmailGet ''m2'' (Inl (HttpError ''HttpError 404''))
     \<in> set (snd (main (get_fails_env (HttpError ''HttpError 404'')))) \<and>
   fst (get_unread_emails (get_fails_env (HttpError ''HttpError 404''))
          (get_fails_service (HttpError ''HttpError 404'')) 50) = Inr [] \<and>
   exit_status (fst (main (get_fails_env (HttpError ''HttpError 404'')))) = 0"
proof -
  have "fst (get_unread_emails list_fails_env list_fails_service 50) = Inr []"
    and "fst (get_unread_emails (get_fails_env (HttpError ''HttpError 404''))
          (get_fails_service (HttpError ''HttpError 404'')) 50) = Inr []"
    by (simp_all add: list_fails_env_def get_fails_env_def example_fetch)
  then show ?thesis
    by (simp add: main_list_fails_env main_get_fails_env_http)
qed

text \<open>
  Claim C2, amended. When the listing request or a request for one message raises, the fetch
  never returns a part of the batch. An \<^verbatim>\<open>HttpError\<close> is caught inside the fetch, which
  returns the empty list, and the run ends as if there were no unread mail, with status 0. Any
  other exception leaves the fetch, and the run ends with status 1. In both cases nothing is
  summarized, sent or acknowledged.
\<close>

theorem fetch_failure_ends_the_run_without_send:
  assumes "GmailList q m (Inl e) \<in> set (snd (main E)) \<or> GmailGet i (Inl e) \<in> set (snd (main E))"
  shows "((\<exists>s. e = HttpError s) \<longrightarrow>
            FetchResult (Inr []) \<in> set (snd (main E)) \<and> fst (main E) = Return \<and>
            exit_status (fst (main E)) = 0) \<and>
         ((\<forall>s. e \<noteq> HttpError s) \<longrightarrow>
            FetchResult (Inl e) \<in> set (snd (main E)) \<and> fst (main E) = SysExit 1 \<and>
            exit_status (fst (main E)) = 1) \<and>
         (\<forall>ev\<in>set (snd (main E)). \<not> summarize_event ev \<and> \<not> send_event ev \<and> \<not> ack_event ev)"
  using main_fetch_request_failed [OF assms] stage_bound_events [of "snd (main E)" 1]
  by (cases e) auto

text \<open>
  Claim C2, amended, at the run in which the listing is answered with an HTTP error and at the
  run in which the request for the second message times out.
\<close>

theorem fetch_failure_ends_the_run_without_send_witness:
  "GmailList ''is:unread'' 50 (Inl (HttpError ''HttpError 500'')) \<in> set (snd (main list_fails_env)) \<and>
   FetchResult (Inr []) \<in> set (snd (main list_fails_env)) \<and>
   fst (main list_fails_env) = Return \<and>
   GmailGet ''m2'' (Inl timeout_error) \<in> set (snd (main (get_fails_env timeout_error))) \<and>
   FetchResult (Inl timeout_error) \<in> set (snd (main (get_fails_env timeout_error))) \<and>
   fst (main (get_fails_env timeout_error)) = SysExit 1"
proof -
  have listed: "GmailList ''is:unread'' 50 (Inl (HttpError ''HttpError 500''))
      \<in> set (snd (main list_fails_env))"
    by (simp add: main_list_fails_env)
  then have listed': "GmailList ''is:unread'' 50 (Inl (HttpError ''HttpError 500''))
      \<in> set (snd (main list_fails_env)) \<or>
      GmailGet ''m2'' (Inl (HttpError ''HttpError 500'')) \<in> set (snd (main list_fails_env))"
    by (rule disjI1)
  have got: "GmailGet ''m2'' (Inl timeout_error) \<in> set (snd (main (get_fails_env timeout_error)))"
    by (simp add: main_get_fails_env_timeout)
  then have got': "GmailList ''is:unread'' 50 (Inl timeout_error)
      \<in> set (snd (main (get_fails_env timeout_error))) \<or>
      GmailGet ''m2'' (Inl timeout_error) \<in> set (snd (main (get_fails_env timeout_error)))"
    by (rule disjI2)
  have other: "\<forall>s. timeout_error \<noteq> HttpError s"
    by (simp add: timeout_error_def)
  from fetch_failure_ends_the_run_without_send [OF listed']
  have "FetchResult (Inr []) \<in> set (snd (main list_fails_env)) \<and> fst (main list_fails_env) = Return"
    by blast
  moreover from fetch_failure_ends_the_run_without_send [OF got'] other
  have "FetchResult (Inl timeout_error) \<in> set (snd (main (get_fails_env timeout_error))) \<and>
      fst (main (get_fails_env timeout_error)) = SysExit 1"
    by blast
  ultimately show ?thesis using listed got by blast
qed

text \<open>
  Claim C3. When the fetch has returned the batch \<open>emails\<close> and the send has returned
  \<^verbatim>\<open>True\<close>, \<^verbatim>\<open>mark_emails_as_read\<close> is called with the ids of \<open>emails\<close>, in the order
  of the batch, and with no other list; the \<^verbatim>\<open>batchModify\<close> request is sent, for exactly
  these ids and the label \<^verbatim>\<open>UNREAD\<close>.
\<close>

theorem acknowledged_ids_are_fetched_ids:
  assumes "FetchResult (Inr emails) \<in> set (snd (main E))"
    and "SendResult (Inr True) \<in> set (snd (main E))"
  shows "AckCall (map email_id emails) \<in> set (snd (main E)) \<and>
    (\<forall>ids. AckCall ids \<in> set (snd (main E)) \<longrightarrow> ids = map email_id emails) \<and>
    (\<exists>r. GmailBatchModify (map email_id emails) [''UNREAD''] r \<in> set (snd (main E))) \<and>
    (\<forall>ids labels r. GmailBatchModify ids labels r \<in> set (snd (main E)) \<longrightarrow>
       ids = map email_id emails \<and> labels = [''UNREAD'']) \<and>
    set (map email_id emails) = email_id ` set emails"
  using assms
  by (cases E rule: main_cases) (simp_all add: path_simps)

text \<open>
  Claim C3, at the example run.
\<close>

theorem acknowledged_ids_are_fetched_ids_witness:
  "FetchResult (Inr demo_emails) \<in> set (snd (main demo_env)) \<and>
   SendResult (Inr True) \<in> set (snd (main demo_env)) \<and>
   AckCall (map email_id demo_emails) \<in> set (snd (main demo_env)) \<and>
   map email_id demo_emails = [''m1'', ''m2'']"
proof -
  have fetched: "FetchResult (Inr demo_emails) \<in> set (snd (main demo_env))"
    and sent: "SendResult (Inr True) \<in> set (snd (main demo_env))"
    by (simp_all add: main_demo_env)
  from acknowledged_ids_are_fetched_ids [OF fetched sent]
  have "AckCall (map email_id demo_emails) \<in> set (snd (main demo_env))" by blast
  with fetched sent show ?thesis by (simp add: demo_emails_simps)
qed

text \<open>
  Claim C4. When \<^verbatim>\<open>summarize_emails_with_gemini\<close> raises, the run ends with
  \<^verbatim>\<open>sys.exit(1)\<close>, there is no send event and no acknowledge event, and the unread messages
  of the mailbox are as they were.
\<close>

theorem summarize_failure_aborts:
  assumes "SummarizeResult (Inl e) \<in> set (snd (main E))"
  shows "fst (main E) = SysExit 1 \<and> exit_status (fst (main E)) \<noteq> 0 \<and>
    (\<forall>ev\<in>set (snd (main E)). \<not> send_event ev \<and> \<not> ack_event ev) \<and>
    unread_after (snd (main E)) u = u"
  using main_summarize_raised [OF assms] stage_bound_events [of "snd (main E)" 2]
    no_ack_unread_after [of "snd (main E)" u] by simp

text \<open>
  Claim C4, at the run in which Gemini is out of quota.
\<close>

theorem summarize_failure_aborts_witness:
  "SummarizeResult (Inl quota_error) \<in> set (snd (main summarize_fails_env)) \<and>
   fst (main summarize_fails_env) = SysExit 1 \<and>
   unread_after (snd (main summarize_fails_env)) {''m1'', ''m2''} = {''m1'', ''m2''}"
proof -
  have failed: "SummarizeResult (Inl quota_error) \<in> set (snd (main summarize_fails_env))"
    by (simp add: main_summarize_fails_env)
  from summarize_failure_aborts [OF failed, of "{''m1'', ''m2''}"] failed show ?thesis by blast
qed

text \<open>
  Claim C5 fails: \<^verbatim>\<open>send_summary_email\<close> does not return a boolean for every input. The
  client and the parts of the message are created before the \<^verbatim>\<open>try\<close>, and when
  \<^verbatim>\<open>boto3.client\<close> raises (here for the region that \<^verbatim>\<open>AWS_REGION\<close> gives), the
  exception leaves the function.
\<close>

theorem send_raises_when_client_creation_raises:
  "fst (send_summary_email bad_region_env ''Topic A: ...'' ''digest@example.com''
          ''me@example.com'' ''us east 1'') = Inl region_error \<and>
   environ_get bad_region_env ''AWS_REGION'' ''us-east-1'' = ''us east 1'' \<and>
   SendResult (Inl region_error) \<in> set (snd (main bad_region_env))"
  by (simp add: bad_region_facts main_bad_region_env)

text \<open>
  Claim C5, amended. \<^verbatim>\<open>send_summary_email\<close> raises exactly when one of the calls before
  its \<^verbatim>\<open>try\<close> raises: the creation of the client, or, the client created, the
  \<^verbatim>\<open>MIMEText\<close> of the plain text, or, that part made, the \<^verbatim>\<open>MIMEText\<close> of the markup.
  Otherwise it returns a boolean: \<^verbatim>\<open>True\<close> exactly when the send request was answered,
  \<^verbatim>\<open>False\<close> whenever the send request raised. When it has returned \<^verbatim>\<open>False\<close>, or
  has raised, the run ends with status 1 and has no acknowledge event.
\<close>

theorem send_failure_is_a_boolean:
  "(fst (send_summary_email E summary s d r) = Inl e \<longleftrightarrow>
      boto3_client E r = Inl e \<or>
      (\<exists>client. boto3_client E r = Inr client) \<and>
      (MIMEText E (text_body (digest_subject E) summary) ''plain'' = Inl e \<or>
       (\<exists>p. MIMEText E (text_body (digest_subject E) summary) ''plain'' = Inr p) \<and>
       MIMEText E (html_body (digest_subject E) summary) ''html'' = Inl e)) \<and>
   (fst (send_summary_email E summary s d r) = Inr True \<longleftrightarrow>
      (\<exists>a b c mid. SesSendRawEmail a b c (Inr mid)
         \<in> set (snd (send_summary_email E summary s d r)))) \<and>
   (SesSendRawEmail a b c (Inl e') \<in> set (snd (send_summary_email E summary s d r)) \<longrightarrow>
      fst (send_summary_email E summary s d r) = Inr False) \<and>
   (SendResult (Inr False) \<in> set (snd (main E')) \<or> SendResult (Inl e'') \<in> set (snd (main E')) \<longrightarrow>
      fst (main E') = SysExit 1 \<and> exit_status (fst (main E')) \<noteq> 0 \<and>
      (\<forall>ev\<in>set (snd (main E')). \<not> ack_event ev))"
proof (intro conjI impI)
  show "fst (send_summary_email E summary s d r) = Inl e \<longleftrightarrow>
      boto3_client E r = Inl e \<or>
      (\<exists>client. boto3_client E r = Inr client) \<and>
      (MIMEText E (text_body (digest_subject E) summary) ''plain'' = Inl e \<or>
       (\<exists>p. MIMEText E (text_body (digest_subject E) summary) ''plain'' = Inr p) \<and>
       MIMEText E (html_body (digest_subject E) summary) ''html'' = Inl e)"
    by (rule send_raises_iff)
  show "fst (send_summary_email E summary s d r) = Inr True \<longleftrightarrow>
      (\<exists>a b c mid. SesSendRawEmail a b c (Inr mid)
         \<in> set (snd (send_summary_email E summary s d r)))"
    by (rule send_True_iff)
  show "fst (send_summary_email E summary s d r) = Inr False"
    if "SesSendRawEmail a b c (Inl e') \<in> set (snd (send_summary_email E summary s d r))"
    using that by (rule send_request_failed)
  assume "SendResult (Inr False) \<in> set (snd (main E')) \<or> SendResult (Inl e'') \<in> set (snd (main E'))"
  then have *: "fst (main E') = SysExit 1 \<and> (\<forall>ev\<in>set (snd (main E')). stage ev \<le> 3)"
    using main_send_not_confirmed [of "Inr False" E'] main_send_not_confirmed [of "Inl e''" E']
    by auto
  then show "fst (main E') = SysExit 1" by simp
  from * show "exit_status (fst (main E')) \<noteq> 0" by simp
  from * show "\<forall>ev\<in>set (snd (main E')). \<not> ack_event ev"
    using stage_bound_events(1) [of "snd (main E')" 3] by simp
qed

text \<open>
  Claim C5, amended, at the run in which SES rejects the message and at the run with the bad
  region.
\<close>

theorem send_failure_is_a_boolean_witness:
  "SesSendRawEmail ''digest@example.com'' [''me@example.com''] ''MIME-Version: 1.0''
     (Inl rejected_error)
     \<in> set (snd (send_summary_email send_fails_env ''Topic A: ...'' ''digest@example.com''
                   ''me@example.com'' ''us-east-1'')) \<and>
   fst (send_summary_email send_fails_env ''Topic A: ...'' ''digest@example.com''
          ''me@example.com'' ''us-east-1'') = Inr False \<and>
   SendResult (Inr False) \<in> set (snd (main send_fails_env)) \<and>
   fst (main send_fails_env) = SysExit 1 \<and>
   SendResult (Inl region_error) \<in> set (snd (main bad_region_env)) \<and>
   fst (main bad_region_env) = SysExit 1"
proof -
  have rejected: "SesSendRawEmail ''digest@example.com'' [''me@example.com''] ''MIME-Version: 1.0''
      (Inl rejected_error)
      \<in> set (snd (send_summary_email send_fails_env ''Topic A: ...'' ''digest@example.com''
                    ''me@example.com'' ''us-east-1''))"
    by (simp add: send_fails_env_def example_send)
  have failed: "SendResult (Inr False) \<in> set (snd (main send_fails_env))"
    by (simp add: main_send_fails_env)
  then have failed': "SendResult (Inr False) \<in> set (snd (main send_fails_env)) \<or>
      SendResult (Inl region_error) \<in> set (snd (main send_fails_env))"
    by (rule disjI1)
  have raised: "SendResult (Inl region_error) \<in> set (snd (main bad_region_env))"
    by (simp add: main_bad_region_env)
  then have raised': "SendResult (Inr False) \<in> set (snd (main bad_region_env)) \<or>
      SendResult (Inl region_error) \<in> set (snd (main bad_region_env))"
    by (rule disjI2)
  note returns_False = send_failure_is_a_boolean [THEN conjunct2, THEN conjunct2, THEN conjunct1,
      rule_format, OF rejected]
  note exits = send_failure_is_a_boolean [THEN conjunct2, THEN conjunct2, THEN conjunct2,
      rule_format, OF failed', THEN conjunct1]
  note exits' = send_failure_is_a_boolean [THEN conjunct2, THEN conjunct2, THEN conjunct2,
      rule_format, OF raised', THEN conjunct1]
  from rejected failed raised returns_False exits exits' show ?thesis by (intro conjI)
qed

text \<open>
  Claim C6 fails: when the \<^verbatim>\<open>batchModify\<close> request times out after a successful send, the
  exception is no \<^verbatim>\<open>HttpError\<close>, it leaves \<^verbatim>\<open>mark_emails_as_read\<close>, and the run ends
  with status 1.
\<close>

theorem acknowledge_timeout_is_fatal:
  "SendResult (Inr True) \<in> set (snd (main (ack_fails_env timeout_error))) \<and>
   GmailBatchModify [''m1'', ''m2''] [''UNREAD''] (Inl timeout_error)
     \<in> set (snd (main (ack_fails_env timeout_error))) \<and>
   AckResult (Inl timeout_error) \<in> set (snd (main (ack_fails_env timeout_error))) \<and>
   fst (main (ack_fails_env timeout_error)) = SysExit 1 \<and>
   exit_status (fst (main (ack_fails_env timeout_error))) = 1"
  by (simp add: main_ack_fails_env_timeout)

text \<open>
  Claim C6, amended. When the \<^verbatim>\<open>batchModify\<close> request raises an \<^verbatim>\<open>HttpError\<close> (which can
  only be after a successful send), the error is printed, \<^verbatim>\<open>mark_emails_as_read\<close> returns,
  and the run completes with status 0. When the request raises any other exception, the exception
  reaches the handler of \<^verbatim>\<open>main\<close>, and the run ends with status 1.
\<close>

theorem acknowledge_http_error_is_not_fatal:
  "(GmailBatchModify ids labels (Inl (HttpError s)) \<in> set (snd (main E)) \<longrightarrow>
      fst (main E) = Return \<and> exit_status (fst (main E)) = 0 \<and>
      Print (''Error marking emails as read: '' @ s) \<in> set (snd (main E)) \<and>
      AckResult (Inr ()) \<in> set (snd (main E)) \<and> SendResult (Inr True) \<in> set (snd (main E))) \<and>
   (GmailBatchModify ids labels (Inl e) \<in> set (snd (main E)) \<and> (\<forall>s. e \<noteq> HttpError s) \<longrightarrow>
      fst (main E) = SysExit 1 \<and> exit_status (fst (main E)) \<noteq> 0 \<and>
      AckResult (Inl e) \<in> set (snd (main E)) \<and> PrintExc e \<in> set (snd (main E)) \<and>
      SendResult (Inr True) \<in> set (snd (main E)))"
proof (rule conjI; rule impI)
  assume H: "GmailBatchModify ids labels (Inl (HttpError s)) \<in> set (snd (main E))"
  show "fst (main E) = Return \<and> exit_status (fst (main E)) = 0 \<and>
      Print (''Error marking emails as read: '' @ s) \<in> set (snd (main E)) \<and>
      AckResult (Inr ()) \<in> set (snd (main E)) \<and> SendResult (Inr True) \<in> set (snd (main E))"
  proof (cases E rule: main_cases)
    case (AckRaised creds sv emails k summary s' d r e')
    with H have "GmailBatchModify ids labels (Inl (HttpError s))
        \<in> set (snd (mark_emails_as_read sv (map email_id emails)))"
      by (simp add: request_simps)
    from mark_request_HttpError(1) [OF this] AckRaised show ?thesis by simp
  next
    case (Done creds sv emails k summary s' d r)
    with H have "GmailBatchModify ids labels (Inl (HttpError s))
        \<in> set (snd (mark_emails_as_read sv (map email_id emails)))"
      by (simp add: request_simps)
    then have "Print (''Error marking emails as read: '' @ s) \<in> set (ack_segment sv emails)"
      by (intro in_ack_segment(2) mark_request_HttpError(2))
    with Done show ?thesis by (simp add: request_simps)
  qed (use H in \<open>simp_all add: request_simps\<close>)
next
  assume "GmailBatchModify ids labels (Inl e) \<in> set (snd (main E)) \<and> (\<forall>s. e \<noteq> HttpError s)"
  then have H: "GmailBatchModify ids labels (Inl e) \<in> set (snd (main E))"
    and other: "\<forall>s. e \<noteq> HttpError s" by simp_all
  have "fst (main E) = SysExit 1 \<and>
      AckResult (Inl e) \<in> set (snd (main E)) \<and> PrintExc e \<in> set (snd (main E)) \<and>
      SendResult (Inr True) \<in> set (snd (main E))"
  proof (cases E rule: main_cases)
    case (AckRaised creds sv emails k summary s' d r e')
    with H have "GmailBatchModify ids labels (Inl e)
        \<in> set (snd (mark_emails_as_read sv (map email_id emails)))"
      by (simp add: request_simps)
    from mark_request_other_exception [OF this other] AckRaised show ?thesis
      by (simp add: request_simps failure_report_def)
  next
    case (Done creds sv emails k summary s' d r)
    with H have "GmailBatchModify ids labels (Inl e)
        \<in> set (snd (mark_emails_as_read sv (map email_id emails)))"
      by (simp add: request_simps)
    from mark_request_other_exception [OF this other] Done show ?thesis by simp
  qed (use H in \<open>simp_all add: request_simps\<close>)
  then show "fst (main E) = SysExit 1 \<and> exit_status (fst (main E)) \<noteq> 0 \<and>
      AckResult (Inl e) \<in> set (snd (main E)) \<and> PrintExc e \<in> set (snd (main E)) \<and>
      SendResult (Inr True) \<in> set (snd (main E))" by simp
qed

text \<open>
  Claim C6, amended, at the runs in which \<^verbatim>\<open>batchModify\<close> is answered with an HTTP error
  and in which it times out.
\<close>

theorem acknowledge_http_error_is_not_fatal_witness:
  "GmailBatchModify [''m1'', ''m2''] [''UNREAD''] (Inl (HttpError ''HttpError 403''))
     \<in> set (snd (main (ack_fails_env (HttpError ''HttpError 403'')))) \<and>
   fst (main (ack_fails_env (HttpError ''HttpError 403''))) = Return \<and>
   Print ''Error marking emails as read: HttpError 403''
     \<in> set (snd (main (ack_fails_env (HttpError ''HttpError 403'')))) \<and>
   GmailBatchModify [''m1'', ''m2''] [''UNREAD''] (Inl timeout_error)
     \<in> set (snd (main (ack_fails_env timeout_error))) \<and>
   fst (main (ack_fails_env timeout_error)) = SysExit 1"
proof -
  have http: "GmailBatchModify [''m1'', ''m2''] [''UNREAD''] (Inl (HttpError ''HttpError 403''))
      \<in> set (snd (main (ack_fails_env (HttpError ''HttpError 403''))))"
    by (simp add: main_ack_fails_env_http)
  have timeout: "GmailBatchModify [''m1'', ''m2''] [''UNREAD''] (Inl timeout_error)
      \<in> set (snd (main (ack_fails_env timeout_error))) \<and> (\<forall>s. timeout_error \<noteq> HttpError s)"
    by (simp add: main_ack_fails_env_timeout) (simp add: timeout_error_def)
  note logged = acknowledge_http_error_is_not_fatal [THEN conjunct1, rule_format, OF http]
  note fatal = acknowledge_http_error_is_not_fatal [THEN conjunct2, rule_format, OF timeout]
  from http timeout logged fatal show ?thesis by simp
qed

text \<open>
  Claim C7. When the fetch returns the empty batch, \<^verbatim>\<open>main\<close> returns (exit status 0), and
  the run has no summarize event, no send event and no acknowledge event.
\<close>

theorem empty_batch_exits_successfully:
  assumes "FetchResult (Inr []) \<in> set (snd (main E))"
  shows "fst (main E) = Return \<and> exit_status (fst (main E)) = 0 \<and>
    (\<forall>ev\<in>set (snd (main E)). \<not> summarize_event ev \<and> \<not> send_event ev \<and> \<not> ack_event ev)"
  using main_empty_batch [OF assms] stage_bound_events [of "snd (main E)" 1] by simp

text \<open>
  Claim C7, at the run on a mailbox without unread messages.
\<close>

theorem empty_batch_exits_successfully_witness:
  "FetchResult (Inr []) \<in> set (snd (main empty_env)) \<and> fst (main empty_env) = Return \<and>
   exit_status (fst (main empty_env)) = 0"
proof -
  have empty: "FetchResult (Inr []) \<in> set (snd (main empty_env))"
    by (simp add: main_empty_env)
  from empty_batch_exits_successfully [OF empty] empty show ?thesis by blast
qed

text \<open>
  Claim C8 fails: \<^verbatim>\<open>extract_body\<close> raises when the data is not UTF-8 under its base64, and
  for a single-part message of type \<^verbatim>\<open>text/html\<close>, which has no plain-text content, the
  body is the decoded markup, not the empty string.
\<close>

theorem extract_body_can_raise:
  "extract_body demo_env undecodable_payload =
     Inl (OtherException ''UnicodeDecodeError'' ''invalid start byte'') \<and>
   payload_mimeType html_only_payload = ''text/html'' \<and>
   extract_body demo_env html_only_payload = Inr ''<p>Hi</p>''"
  by (simp add: extract_body_def undecodable_payload_def html_only_payload_def example_defs)

text \<open>
  Claim C8, amended. For a payload with parts, the body is the decoded data of the first part
  of type \<^verbatim>\<open>text/plain\<close> that carries data, and the empty string when there is no such
  part. For a payload without parts, the body is the decoded data of the payload's own body,
  whatever its type, and the empty string when there is no body or no data. The function raises
  only when the decoder raises.
\<close>

theorem extract_body_decodes_first_plain_part:
  "(payload_parts pl = Some ps \<and> find plain_with_data ps = Some p \<and>
      body_data (part_body p) = Some d \<longrightarrow> extract_body E pl = b64_utf8_decode E d) \<and>
   (payload_parts pl = Some ps \<and> find plain_with_data ps = None \<longrightarrow> extract_body E pl = Inr []) \<and>
   (payload_parts pl = None \<and> payload_body pl = Some b \<and> body_data b = Some d \<longrightarrow>
      extract_body E pl = b64_utf8_decode E d) \<and>
   (payload_parts pl = None \<and> payload_body pl = Some b \<and> body_data b = None \<longrightarrow>
      extract_body E pl = Inr []) \<and>
   (payload_parts pl = None \<and> payload_body pl = None \<longrightarrow> extract_body E pl = Inr []) \<and>
   (extract_body E pl = Inl e \<longrightarrow> (\<exists>d. b64_utf8_decode E d = Inl e))"
  by (auto simp: extract_body_def extract_body_parts_find split: option.splits
      dest: extract_body_parts_raises)

text \<open>
  Claim C8, amended, at the example payloads.
\<close>

theorem extract_body_decodes_first_plain_part_witness:
  "extract_body demo_env (message_payload demo_message2) = Inr ''World'' \<and>
   extract_body demo_env attachment_payload = Inr [] \<and>
   extract_body demo_env html_only_payload = Inr ''<p>Hi</p>'' \<and>
   extract_body demo_env (html_only_payload\<lparr>payload_body := Some \<lparr>body_data = None\<rparr>\<rparr>) = Inr [] \<and>
   extract_body demo_env (html_only_payload\<lparr>payload_body := None\<rparr>) = Inr [] \<and>
   extract_body demo_env undecodable_payload =
     Inl (OtherException ''UnicodeDecodeError'' ''invalid start byte'') \<and>
   (\<exists>d. b64_utf8_decode demo_env d =
          Inl (OtherException ''UnicodeDecodeError'' ''invalid start byte''))"
proof -
  let ?plain = "\<lparr>part_mimeType = ''text/plain'', part_body = \<lparr>body_data = Some ''V29ybGQ=''\<rparr>\<rparr>"
  have multipart: "payload_parts (message_payload demo_message2) =
      Some [\<lparr>part_mimeType = ''text/html'', part_body = \<lparr>body_data = Some ''PHA-V29ybGQ8L3A-''\<rparr>\<rparr>,
            ?plain] \<and>
      find plain_with_data
        [\<lparr>part_mimeType = ''text/html'', part_body = \<lparr>body_data = Some ''PHA-V29ybGQ8L3A-''\<rparr>\<rparr>,
         ?plain] = Some ?plain \<and>
      body_data (part_body ?plain) = Some ''V29ybGQ=''"
    by (simp add: demo_message2_def plain_with_data_def)
  have attachment: "payload_parts attachment_payload =
      Some [\<lparr>part_mimeType = ''text/html'', part_body = \<lparr>body_data = Some ''PHA-SGk8L3A-''\<rparr>\<rparr>,
            \<lparr>part_mimeType = ''text/plain'', part_body = \<lparr>body_data = None\<rparr>\<rparr>] \<and>
      find plain_with_data
        [\<lparr>part_mimeType = ''text/html'', part_body = \<lparr>body_data = Some ''PHA-SGk8L3A-''\<rparr>\<rparr>,
         \<lparr>part_mimeType = ''text/plain'', part_body = \<lparr>body_data = None\<rparr>\<rparr>] = None"
    by (simp add: attachment_payload_def plain_with_data_def)
  have single: "payload_parts html_only_payload = None \<and>
      payload_body html_only_payload = Some \<lparr>body_data = Some ''PHA-SGk8L3A-''\<rparr> \<and>
      body_data \<lparr>body_data = Some ''PHA-SGk8L3A-''\<rparr> = Some ''PHA-SGk8L3A-''"
    by (simp add: html_only_payload_def)
  have no_data: "payload_parts (html_only_payload\<lparr>payload_body := Some \<lparr>body_data = None\<rparr>\<rparr>) = None \<and>
      payload_body (html_only_payload\<lparr>payload_body := Some \<lparr>body_data = None\<rparr>\<rparr>) =
        Some \<lparr>body_data = None\<rparr> \<and>
      body_data \<lparr>body_data = None\<rparr> = None"
    by (simp add: html_only_payload_def)
  have no_body: "payload_parts (html_only_payload\<lparr>payload_body := None\<rparr>) = None \<and>
      payload_body (html_only_payload\<lparr>payload_body := None\<rparr>) = None"
    by (simp add: html_only_payload_def)
  have decode: "b64_utf8_decode demo_env ''V29ybGQ='' = Inr ''World''"
    "b64_utf8_decode demo_env ''PHA-SGk8L3A-'' = Inr ''<p>Hi</p>''"
    "b64_utf8_decode demo_env ''_w=='' =
       Inl (OtherException ''UnicodeDecodeError'' ''invalid start byte'')"
    by (simp_all add: example_defs)
  note c1 = extract_body_decodes_first_plain_part [THEN conjunct1, rule_format, OF multipart]
  note c2 = extract_body_decodes_first_plain_part [THEN conjunct2, THEN conjunct1, rule_format,
      OF attachment]
  note c3 = extract_body_decodes_first_plain_part [THEN conjunct2, THEN conjunct2, THEN conjunct1,
      rule_format, OF single]
  note c4 = extract_body_decodes_first_plain_part [THEN conjunct2, THEN conjunct2, THEN conjunct2,
      THEN conjunct1, rule_format, OF no_data]
  note c5 = extract_body_decodes_first_plain_part [THEN conjunct2, THEN conjunct2, THEN conjunct2,
      THEN conjunct2, THEN conjunct1, rule_format, OF no_body]
  have undecodable: "payload_parts undecodable_payload = None \<and>
      payload_body undecodable_payload = Some \<lparr>body_data = Some ''_w==''\<rparr> \<and>
      body_data \<lparr>body_data = Some ''_w==''\<rparr> = Some ''_w==''"
    by (simp add: undecodable_payload_def)
  note c3' = extract_body_decodes_first_plain_part [THEN conjunct2, THEN conjunct2, THEN conjunct1,
      rule_format, OF undecodable]
  have raised: "extract_body demo_env undecodable_payload =
      Inl (OtherException ''UnicodeDecodeError'' ''invalid start byte'')"
    using c3' [of demo_env] decode(3) by simp
  note c6 = extract_body_decodes_first_plain_part [THEN conjunct2, THEN conjunct2, THEN conjunct2,
      THEN conjunct2, THEN conjunct2, rule_format, OF raised]
  from c1 [of demo_env] c2 [of demo_env] c3 [of demo_env] c4 [of demo_env] c5 [of demo_env]
    raised c6 decode
  show ?thesis by simp
qed

text \<open>
  Claim C9. \<^verbatim>\<open>summarize_emails_with_gemini\<close> raises \<^verbatim>\<open>ValueError("No emails to summarize")\<close>
  on the empty batch, and in no run is it called with the empty batch.
\<close>

theorem summarize_never_called_with_empty_batch:
  "summarize_emails_with_gemini E [] k = (Inl (ValueError ''No emails to summarize''), []) \<and>
   (\<forall>emails k'. SummarizeCall emails k' \<in> set (snd (main E)) \<longrightarrow> emails \<noteq> [])"
proof
  show "summarize_emails_with_gemini E [] k = (Inl (ValueError ''No emails to summarize''), [])"
    by (simp add: summarize_emails_with_gemini_def)
  show "\<forall>emails k'. SummarizeCall emails k' \<in> set (snd (main E)) \<longrightarrow> emails \<noteq> []"
    by (cases E rule: main_cases) (simp_all add: path_simps)
qed

text \<open>
  Claim C9, at the example run.
\<close>

theorem summarize_never_called_with_empty_batch_witness:
  "SummarizeCall demo_emails ''gemini-key'' \<in> set (snd (main demo_env)) \<and> demo_emails \<noteq> []"
proof -
  have called: "SummarizeCall demo_emails ''gemini-key'' \<in> set (snd (main demo_env))"
    by (simp add: main_demo_env)
  from summarize_never_called_with_empty_batch [of demo_env "''gemini-key''"] called
  show ?thesis by blast
qed

text \<open>
  Claim C10. \<^verbatim>\<open>mark_emails_as_read\<close> on the empty list returns without raising and without
  any event: it sends no request and prints nothing.
\<close>

theorem mark_emails_as_read_empty_is_noop:
  "mark_emails_as_read service [] = (Inr (), [])"
  by (simp add: mark_emails_as_read_def)

end
